theory Spec2Isabelle
  imports Main "HOL-Library.Word" "HOL-Library.AList" "HOL-Library.Multiset"
    "HOL-Library.List_Lexorder" "HOL-Library.Char_ord"
begin

section \<open>Artifact assembly of builder-playground (internal/artifacts.go)\<close>

text \<open>
  The development embeds the functions of \<^verbatim>\<open>internal/artifacts.go\<close> that the
  specification talks about: the builder and its setters, the stages of \<^verbatim>\<open>Build\<close>,
  \<^verbatim>\<open>overrideJSON\<close> and \<^verbatim>\<open>mergeMap\<close>, the \<^verbatim>\<open>output\<close> writer and the
  \<^verbatim>\<open>lighthouseKeystore\<close> encoder.

  Go strings and byte slices are \<^typ>\<open>string\<close> (lists of bytes), \<^verbatim>\<open>uint64\<close> is
  \<^typ>\<open>64 word\<close>. Calls into the Go standard library and into third-party packages
  (encoding/json, yaml, os, path/filepath, time, go-ethereum, prysm, keystorev4, uuid) are
  not part of the repository: they are fields of an environment record \<open>env\<close>, and every
  theorem holds for every environment. The embedded files (\<^verbatim>\<open>utils/*.json\<close>), which are
  not among the sources, are fields of the same record.
\<close>

subsection \<open>Errors and outcomes\<close>

text \<open>
  \<open>External\<close> is an error made by an external call; \<open>Errorf_w\<close> is
  \<^verbatim>\<open>fmt.Errorf("msg: %w", err)\<close>, \<open>Errorf_v\<close> is \<^verbatim>\<open>fmt.Errorf("msg: %v", err)\<close>
  and \<open>Errorf_s\<close> is \<^verbatim>\<open>fmt.Errorf("msg: %s", text)\<close>.
\<close>

datatype error =
    External string
  | Errorf_w string error
  | Errorf_v string error
  | Errorf_s string string

text \<open>A Go call either returns or panics.\<close>

datatype 'a outcome = Return 'a | Panic string

subsection \<open>Dynamic values (\<^verbatim>\<open>interface{}\<close>)\<close>

text \<open>
  The values that travel through \<^verbatim>\<open>map[string]interface{}\<close> in this file:
  what \<^verbatim>\<open>json.Unmarshal\<close> produces (nil, bool, float64, string, slice, map) and
  what the override literals of \<^verbatim>\<open>Build\<close> hold (int, uint64, string, map).
  A float64 is its IEEE-754 bit pattern. \<open>VFunc\<close> stands for a value of a kind that
  has no JSON form (a func or a channel). A Go map has unique keys and no order; it is an
  association list read with \<^const>\<open>map_of\<close> and written with \<^const>\<open>AList.update\<close>.
\<close>

datatype val =
    VNil
  | VBool bool
  | VFloat64 "64 word"
  | VInt int
  | VUint64 "64 word"
  | VString string
  | VSlice "val list"
  | VMap "(string \<times> val) list"
  | VFunc

subsection \<open>mergeMap (lines 310-325)\<close>

text \<open>
  \<^verbatim>\<open>
  func mergeMap(dst, src map[string]interface{}) {
      for key, srcVal := range src {
          if dstVal, exists := dst[key]; exists {
              if dstMap, ok := dstVal.(map[string]interface{}); ok {
                  if srcMap, ok := srcVal.(map[string]interface{}); ok {
                      mergeMap(dstMap, srcMap)
                      continue
                  }
              }
          }
          dst[key] = srcVal
      }
  }
  \<close>
  The loop visits the entries of \<open>src\<close> in the order of the list (Go leaves the order
  open); the map \<open>dst\<close>, which the Go code updates in place, is returned. The two maps
  are values: \<open>dst\<close> comes fresh from \<^verbatim>\<open>json.Unmarshal\<close> and \<open>src\<close> from a literal,
  so no map object is shared between them. \<open>dst\<close> is a map that is not nil here; the nil
  map is treated in \<open>mergeMap_nilable\<close>.
\<close>

function mergeMap :: "(string \<times> val) list \<Rightarrow> (string \<times> val) list \<Rightarrow> (string \<times> val) list" where
  "mergeMap dst [] = dst"
| "mergeMap dst ((key, srcVal) # src) =
     mergeMap
       (case map_of dst key of
          Some (VMap dstMap) \<Rightarrow>
            (case srcVal of
               VMap srcMap \<Rightarrow> AList.update key (VMap (mergeMap dstMap srcMap)) dst
             | _ \<Rightarrow> AList.update key srcVal dst)
        | _ \<Rightarrow> AList.update key srcVal dst)
       src"
  by pat_completeness auto
termination
  by (relation "measure (\<lambda>(dst, src). size_list (size_prod (\<lambda>_. 0) size) src)") auto

text \<open>
  What one iteration of the loop leaves under \<open>key\<close>: the merged object when both
  values are objects, the incoming value otherwise.
\<close>

definition merge_entry :: "(string \<times> val) list \<Rightarrow> string \<Rightarrow> val \<Rightarrow> val" where
  "merge_entry d key srcVal =
     (case (map_of d key, srcVal) of
        (Some (VMap dstMap), VMap srcMap) \<Rightarrow> VMap (mergeMap dstMap srcMap)
      | _ \<Rightarrow> srcVal)"

text \<open>
  \<^verbatim>\<open>json.Unmarshal\<close> leaves the map nil when the document is the literal
  \<^verbatim>\<open>null\<close>. Reading a nil map is allowed, \<^verbatim>\<open>dst[key] = srcVal\<close> on it panics, so
  \<^verbatim>\<open>mergeMap\<close> on a nil \<open>dst\<close> returns only when \<open>src\<close> has no entry.
\<close>

definition mergeMap_nilable ::
  "(string \<times> val) list option \<Rightarrow> (string \<times> val) list \<Rightarrow> (string \<times> val) list option outcome" where
  "mergeMap_nilable dst src =
     (case dst of
        None \<Rightarrow> (if src = [] then Return None else Panic ''assignment to entry in nil map'')
      | Some d \<Rightarrow> Return (Some (mergeMap d src)))"

text \<open>Reading a field through nested objects, to state what a document holds.\<close>

fun lookup_path :: "val \<Rightarrow> string list \<Rightarrow> val option" where
  "lookup_path v [] = Some v"
| "lookup_path (VMap m) (k # ks) =
     (case map_of m k of None \<Rightarrow> None | Some v \<Rightarrow> lookup_path v ks)"
| "lookup_path _ (k # ks) = None"

subsection \<open>The environment: external calls and embedded files\<close>

type_synonym address = "160 word"

text \<open>\<^verbatim>\<open>types.Account\<close> of go-ethereum.\<close>

record account =
  Code :: string
  Storage :: "256 word \<rightharpoonup> 256 word"
  Balance :: int
  Nonce :: "64 word"
  PrivateKey :: string

text \<open>\<^verbatim>\<open>ecdsa.PrivateKey\<close>: the scalar and the encoded public key.\<close>

datatype ecdsa_PrivateKey = ECDSA_PrivateKey (D: int) (PublicKey: string)

text \<open>
  \<^verbatim>\<open>core.Genesis\<close> as decoded from the L2 genesis document: its timestamp and the
  other fields, which the code never reads.
\<close>

record Genesis =
  Timestamp :: "64 word"
  Other :: string

text \<open>\<^verbatim>\<open>common.SecretKey\<close> of prysm, by the two methods the encoder calls.\<close>

record SecretKey =
  Marshal :: string
  PublicKey_Marshal :: string

text \<open>
  The calls into package os, with their arguments. The state of the file system is the
  list of the calls made so far; what a call answers is the environment's.
\<close>

datatype oscall =
    Stat string
  | RemoveAll string
  | MkdirAll string nat
  | OsWriteFile string string nat

record env =
  json_Unmarshal :: "string \<Rightarrow> error + (string \<times> val) list option"
  json_Marshal :: "val \<Rightarrow> error + string"
  json_MarshalIndent :: "val \<Rightarrow> error + string"
  yaml_Marshal :: "val \<Rightarrow> error + string"
  filepath_Join :: "string list \<Rightarrow> string"
  filepath_Dir :: "string \<Rightarrow> string"
  os_UserHomeDir :: "error + string"
  os_result :: "oscall list \<Rightarrow> oscall \<Rightarrow> error option"
  time_Now_Add_Unix :: "int \<Rightarrow> int"
  hex_DecodeString :: "string \<Rightarrow> error + string"
  hex_EncodeToString :: "string \<Rightarrow> string"
  ecrypto_ToECDSA :: "string \<Rightarrow> error + ecdsa_PrivateKey"
  ecrypto_PubkeyToAddress :: "string \<Rightarrow> address"
  opState :: string
  opGenesis :: string
  opRollupConfig :: string
  json_Unmarshal_state :: "string \<Rightarrow> error + string"
  base64_DecodeString :: "string \<Rightarrow> error + string"
  gzip_NewReader :: "string \<Rightarrow> error + string"
  io_ReadAll :: "string \<Rightarrow> error + string"
  json_Unmarshal_GenesisAlloc :: "string \<Rightarrow> error + (address \<rightharpoonup> account)"
  hexutil_Uint64_String :: "64 word \<Rightarrow> string"
  json_Unmarshal_Genesis :: "string \<Rightarrow> error + Genesis"
  Genesis_ToBlock_Hash_String :: "Genesis \<Rightarrow> string"
  keystorev4_Encrypt :: "nat \<Rightarrow> string \<Rightarrow> string \<Rightarrow> error + (string \<times> val) list"
  uuid_GenerateUUID :: "nat \<Rightarrow> error + string"
  range_secrets_first :: "nat \<Rightarrow> bool"

subsection \<open>What is expected of the external calls\<close>

text \<open>
  Three statements of the specification are about what the libraries do, not about the
  repository. They are properties of an environment, and the theorems that need them
  say so.

  encoding/json decodes its own encoding of a decoded document back to that document.
\<close>

definition json_round_trip :: "env \<Rightarrow> bool" where
  "json_round_trip e \<longleftrightarrow>
     (\<forall>doc m result.
        json_Unmarshal e doc = Inr (Some m) \<and> json_Marshal e (VMap m) = Inr result
          \<longrightarrow> json_Unmarshal e result = Inr (Some m))"

text \<open>
  Decoding a serialised document into \<^verbatim>\<open>core.Genesis\<close> reads the timestamp from the
  field \<^verbatim>\<open>timestamp\<close>: when the document holds there what \<^verbatim>\<open>hexutil.Uint64(t).String()\<close>
  gives, the decoded timestamp is \<open>t\<close>.
\<close>

definition Genesis_reads_timestamp :: "env \<Rightarrow> bool" where
  "Genesis_reads_timestamp e \<longleftrightarrow>
     (\<forall>m bytes g t.
        json_Marshal e (VMap m) = Inr bytes \<and> json_Unmarshal_Genesis e bytes = Inr g
        \<and> map_of m ''timestamp'' = Some (VString (hexutil_Uint64_String e t))
          \<longrightarrow> Timestamp g = t)"

text \<open>
  The block hash is sensitive to the timestamp (section 8 of the specification): two
  genesis objects with different timestamps have different block hashes.
\<close>

definition hash_timestamp_sensitive :: "env \<Rightarrow> bool" where
  "hash_timestamp_sensitive e \<longleftrightarrow>
     (\<forall>g g'. Timestamp g \<noteq> Timestamp g'
        \<longrightarrow> Genesis_ToBlock_Hash_String e g \<noteq> Genesis_ToBlock_Hash_String e g')"

subsection \<open>overrideJSON (lines 291-308)\<close>

text \<open>
  \<^verbatim>\<open>json.Unmarshal(jsonData, &original)\<close> answers an error, or the decoded map
  (\<open>None\<close> is the nil map, which the literal \<^verbatim>\<open>null\<close> gives);
  \<^verbatim>\<open>json.Marshal\<close> encodes a nil map like nil.
\<close>

definition overrideJSON :: "env \<Rightarrow> string \<Rightarrow> (string \<times> val) list \<Rightarrow> (error + string) outcome" where
  "overrideJSON e jsonData overrides =
     (case json_Unmarshal e jsonData of
        Inl err \<Rightarrow> Return (Inl (Errorf_w ''failed to unmarshal original JSON'' err))
      | Inr original \<Rightarrow>
          (case mergeMap_nilable original overrides of
             Panic msg \<Rightarrow> Panic msg
           | Return merged \<Rightarrow>
               (case json_Marshal e (case merged of None \<Rightarrow> VNil | Some m \<Rightarrow> VMap m) of
                  Inl err \<Rightarrow> Return (Inl (Errorf_w ''failed to marshal modified JSON'' err))
                | Inr result \<Rightarrow> Return (Inr result))))"

subsection \<open>The output writer (lines 344-476)\<close>

record "output" =
  dst :: string
  homeDir :: string

text \<open>One call into package os: the environment answers it, the call is recorded.\<close>

definition os_call :: "env \<Rightarrow> oscall \<Rightarrow> oscall list \<Rightarrow> error option \<times> oscall list" where
  "os_call e c w = (os_result e w c, w @ [c])"

text \<open>
  \<^verbatim>\<open>
  func (o *output) Exists(path string) bool {
      _, err := os.Stat(filepath.Join(o.dst))
      return err == nil
  }
  func (o *output) Remove(path string) error {
      return os.RemoveAll(filepath.Join(o.dst, path))
  }
  \<close>
\<close>

definition Exists :: "env \<Rightarrow> output \<Rightarrow> string \<Rightarrow> oscall list \<Rightarrow> bool \<times> oscall list" where
  "Exists e out path w =
     (case os_call e (Stat (filepath_Join e [dst out])) w of (err, w1) \<Rightarrow> (err = None, w1))"

definition Remove :: "env \<Rightarrow> output \<Rightarrow> string \<Rightarrow> oscall list \<Rightarrow> error option \<times> oscall list" where
  "Remove e out path w = os_call e (RemoveAll (filepath_Join e [dst out, path])) w"

text \<open>
  \<^verbatim>\<open>filepath.Ext\<close>: the suffix from the last dot of the last path element, scanned
  from the end of the path up to the first separator.
\<close>

fun Ext_scan :: "string \<Rightarrow> string \<Rightarrow> string" where
  "Ext_scan [] acc = []"
| "Ext_scan (c # cs) acc =
     (if c = CHR ''/'' then []
      else if c = CHR ''.'' then c # acc
      else Ext_scan cs (c # acc))"

definition filepath_Ext :: "string \<Rightarrow> string" where
  "filepath_Ext path = Ext_scan (rev path) []"

text \<open>
  What \<^verbatim>\<open>WriteFile\<close> is given: a byte slice, a string, a deferred function
  \<^verbatim>\<open>func() ([]byte, error)\<close> (by what the call returns), or any other Go value. Such a
  value may have a method \<^verbatim>\<open>MarshalSSZ\<close> (by what it returns), a method
  \<^verbatim>\<open>Encode(o *output) error\<close>, and it has the content the serialisers see.
\<close>

record goobject =
  MarshalSSZ :: "(error + string) option"
  Encode :: "(output \<Rightarrow> oscall list \<Rightarrow> error option \<times> oscall list) option"
  Content :: val

datatype artifact =
    Bytes string
  | Text string
  | Object goobject
  | Func "error + string"

text \<open>Lines 469-475: the parent directory (mode 0755 = 493), then the file (0644 = 420).\<close>

definition write_raw :: "env \<Rightarrow> string \<Rightarrow> string \<Rightarrow> oscall list \<Rightarrow> error option \<times> oscall list" where
  "write_raw e path dataRaw w =
     (case os_call e (MkdirAll (filepath_Dir e path) 493) w of
        (Some err, w1) \<Rightarrow> (Some err, w1)
      | (None, w1) \<Rightarrow> os_call e (OsWriteFile path dataRaw 420) w1)"

text \<open>
  Lines 429-467. The type tests run in the order of the source: byte slice, string,
  \<^verbatim>\<open>sszObject\<close>, \<^verbatim>\<open>encObject\<close>, deferred function, then the extension of the
  joined path. A byte slice, a string and a function have no methods, so the place of
  \<open>Func\<close> among the cases does not matter.
\<close>

definition WriteFile ::
  "env \<Rightarrow> output \<Rightarrow> string \<Rightarrow> artifact \<Rightarrow> oscall list \<Rightarrow> error option \<times> oscall list" where
  "WriteFile e out dst0 data w =
     (let path = filepath_Join e [dst out, dst0] in
      case data of
        Bytes raw \<Rightarrow> write_raw e path raw w
      | Text raw \<Rightarrow> write_raw e path raw w
      | Object ob \<Rightarrow>
          (case MarshalSSZ ob of
             Some r \<Rightarrow>
               (case r of
                  Inl err \<Rightarrow> (Some err, w)
                | Inr dataRaw \<Rightarrow> write_raw e path dataRaw w)
           | None \<Rightarrow>
               (case Encode ob of
                  Some enc \<Rightarrow> enc \<lparr>dst = path, homeDir = []\<rparr> w
                | None \<Rightarrow>
                    (let ext = filepath_Ext path in
                     if ext = ''.json'' then
                       (case json_MarshalIndent e (Content ob) of
                          Inl err \<Rightarrow> (Some err, w)
                        | Inr dataRaw \<Rightarrow> write_raw e path dataRaw w)
                     else if ext = ''.yaml'' then
                       (case yaml_Marshal e (Content ob) of
                          Inl err \<Rightarrow> (Some err, w)
                        | Inr dataRaw \<Rightarrow> write_raw e path dataRaw w)
                     else (Some (Errorf_s ''unsupported file extension'' ext), w))))
      | Func r \<Rightarrow>
          (case r of
             Inl err \<Rightarrow> (Some err, w)
           | Inr dataRaw \<Rightarrow> write_raw e path dataRaw w))"

text \<open>
  Lines 403-410. The Go loop ranges over a map, in an order the language leaves open:
  the list is the entries in the order the loop visits them.
\<close>

fun WriteBatch ::
  "env \<Rightarrow> output \<Rightarrow> (string \<times> artifact) list \<Rightarrow> oscall list \<Rightarrow> error option \<times> oscall list" where
  "WriteBatch e out [] w = (None, w)"
| "WriteBatch e out ((dst0, data) # rest) w =
     (case WriteFile e out dst0 data w of
        (Some err, w1) \<Rightarrow> (Some err, w1)
      | (None, w1) \<Rightarrow> WriteBatch e out rest w1)"

text \<open>The files written so far, in order: path and content of each \<^verbatim>\<open>os.WriteFile\<close>.\<close>

fun file_writes :: "oscall list \<Rightarrow> (string \<times> string) list" where
  "file_writes [] = []"
| "file_writes (OsWriteFile path dataRaw perm # w) = (path, dataRaw) # file_writes w"
| "file_writes (_ # w) = file_writes w"

subsection \<open>lighthouseKeystore.Encode (lines 478-516)\<close>

definition secret :: string where
  "secret = ''secret''"

text \<open>The map literal \<^verbatim>\<open>item\<close> of lines 495-501.\<close>

definition keystore_item :: "(string \<times> val) list \<Rightarrow> string \<Rightarrow> string \<Rightarrow> (string \<times> val) list" where
  "keystore_item cryptoFields uuid pubKeyHex =
     [(''crypto'', VMap cryptoFields),
      (''uuid'', VString uuid),
      (''pubkey'', VString (drop 2 pubKeyHex)),
      (''version'', VInt 4),
      (''description'', VString [])]"

text \<open>The map literal given to \<^verbatim>\<open>WriteBatch\<close> in lines 507-510, in the order visited.\<close>

definition keystore_batch :: "bool \<Rightarrow> string \<Rightarrow> string \<Rightarrow> (string \<times> artifact) list" where
  "keystore_batch secrets_first pubKeyHex valJSON =
     (let keystore = (''validators/'' @ pubKeyHex @ ''/voting-keystore.json'', Bytes valJSON);
          password = (''secrets/'' @ pubKeyHex, Text secret)
      in if secrets_first then [password, keystore] else [keystore, password])"

text \<open>
  The loop over \<^verbatim>\<open>l.privKeys\<close>; \<open>i\<close> counts the iterations, since encryption and
  identifier are random and differ from one iteration to the next. The source's variable
  \<^verbatim>\<open>id\<close> is \<open>uuid\<close> here. The error of
  \<^verbatim>\<open>uuid.GenerateUUID\<close> is dropped by the source (\<^verbatim>\<open>id, _ :=\<close>); the identifier
  is then the empty string.
\<close>

fun lighthouseKeystore_Encode ::
  "env \<Rightarrow> SecretKey list \<Rightarrow> nat \<Rightarrow> output \<Rightarrow> oscall list \<Rightarrow> error option \<times> oscall list" where
  "lighthouseKeystore_Encode e [] i out w = (None, w)"
| "lighthouseKeystore_Encode e (key # keys) i out w =
     (case keystorev4_Encrypt e i (Marshal key) secret of
        Inl err \<Rightarrow> (Some err, w)
      | Inr cryptoFields \<Rightarrow>
          (let uuid = (case uuid_GenerateUUID e i of Inl _ \<Rightarrow> [] | Inr s \<Rightarrow> s);
               pubKeyHex = ''0x'' @ hex_EncodeToString e (PublicKey_Marshal key)
           in case json_MarshalIndent e (VMap (keystore_item cryptoFields uuid pubKeyHex)) of
                Inl err \<Rightarrow> (Some err, w)
              | Inr valJSON \<Rightarrow>
                  (case WriteBatch e out (keystore_batch (range_secrets_first e i) pubKeyHex valJSON) w of
                     (Some err, w1) \<Rightarrow> (Some err, w1)
                   | (None, w1) \<Rightarrow> lighthouseKeystore_Encode e keys (Suc i) out w1)))"

text \<open>The value \<^verbatim>\<open>&lighthouseKeystore{privKeys: priv}\<close> as \<^verbatim>\<open>WriteFile\<close> sees it.\<close>

definition lighthouseKeystore :: "env \<Rightarrow> SecretKey list \<Rightarrow> artifact" where
  "lighthouseKeystore e privKeys =
     Object \<lparr>MarshalSSZ = None,
             Encode = Some (lighthouseKeystore_Encode e privKeys 0),
             Content = VNil\<rparr>"

text \<open>
  What one iteration hands to \<^verbatim>\<open>WriteBatch\<close> when nothing fails: the document
  \<^verbatim>\<open>valJSON\<close> of iteration \<open>i\<close>, and the two files with their full paths.
\<close>

definition keystore_document :: "env \<Rightarrow> nat \<Rightarrow> SecretKey \<Rightarrow> error + string" where
  "keystore_document e i key =
     (case keystorev4_Encrypt e i (Marshal key) secret of
        Inl err \<Rightarrow> Inl err
      | Inr cryptoFields \<Rightarrow>
          json_MarshalIndent e
            (VMap (keystore_item cryptoFields
                     (case uuid_GenerateUUID e i of Inl _ \<Rightarrow> [] | Inr s \<Rightarrow> s)
                     (''0x'' @ hex_EncodeToString e (PublicKey_Marshal key)))))"

definition keystore_files :: "env \<Rightarrow> output \<Rightarrow> nat \<Rightarrow> SecretKey \<Rightarrow> (string \<times> string) list" where
  "keystore_files e out i key =
     (case keystore_document e i key of
        Inl err \<Rightarrow> []
      | Inr valJSON \<Rightarrow>
          [(filepath_Join e [dst out, ''validators/0x'' @ hex_EncodeToString e (PublicKey_Marshal key)
                                        @ ''/voting-keystore.json''], valJSON),
           (filepath_Join e [dst out, ''secrets/0x'' @ hex_EncodeToString e (PublicKey_Marshal key)],
            secret)])"

subsection \<open>The builder (lines 43-87)\<close>

text \<open>
  \<^verbatim>\<open>var MinimumGenesisDelay uint64 = 10\<close> is a package variable that the repository
  reads and never assigns.
\<close>

definition MinimumGenesisDelay :: "64 word" where
  "MinimumGenesisDelay = 10"

record ArtifactsBuilder =
  outputDir :: string
  applyLatestL1Fork :: bool
  genesisDelay :: "64 word"

definition NewArtifactsBuilder :: ArtifactsBuilder where
  "NewArtifactsBuilder =
     \<lparr>outputDir = [], applyLatestL1Fork = False, genesisDelay = MinimumGenesisDelay\<rparr>"

definition OutputDir :: "string \<Rightarrow> ArtifactsBuilder \<Rightarrow> ArtifactsBuilder" where
  "OutputDir dir b = b\<lparr>outputDir := dir\<rparr>"

definition ApplyLatestL1Fork :: "bool \<Rightarrow> ArtifactsBuilder \<Rightarrow> ArtifactsBuilder" where
  "ApplyLatestL1Fork flag b = b\<lparr>applyLatestL1Fork := flag\<rparr>"

definition GenesisDelay :: "64 word \<Rightarrow> ArtifactsBuilder \<Rightarrow> ArtifactsBuilder" where
  "GenesisDelay genesisDelaySeconds b = b\<lparr>genesisDelay := genesisDelaySeconds\<rparr>"

subsection \<open>Build, stage by stage (lines 93-289)\<close>

text \<open>
  \<^verbatim>\<open>Build\<close> is one long function. Each stage below is one block of it, named after
  the block, with the values of the earlier blocks as arguments. The blocks between them
  (consensus configuration, validator keys, consensus state, the first batch of files)
  are calls into prysm and are not embedded. Logging is left out.
\<close>

text \<open>\<^verbatim>\<open>GetHomeDir\<close> (lines 526-541).\<close>

definition GetHomeDir :: "env \<Rightarrow> oscall list \<Rightarrow> (error + string) \<times> oscall list" where
  "GetHomeDir e w =
     (case os_UserHomeDir e of
        Inl err \<Rightarrow> (Inl (Errorf_w ''error getting user home directory'' err), w)
      | Inr home \<Rightarrow>
          (let customHomeDir = filepath_Join e [home, ''.playground''] in
           case os_call e (MkdirAll customHomeDir 493) w of
             (Some err, w1) \<Rightarrow> (Inl (Errorf_v ''error creating output directory'' err), w1)
           | (None, w1) \<Rightarrow> (Inr customHomeDir, w1)))"

text \<open>Lines 113-116: the genesis delay is raised to the minimum.\<close>

definition Build_clamp :: "ArtifactsBuilder \<Rightarrow> ArtifactsBuilder" where
  "Build_clamp b =
     (if genesisDelay b < MinimumGenesisDelay then b\<lparr>genesisDelay := MinimumGenesisDelay\<rparr> else b)"

text \<open>
  Lines 94-116: home directory, default output directory, removal of an existing output
  directory, the clamp. The result is the error or the \<^verbatim>\<open>output\<close>, with the builder
  as the block leaves it (\<^verbatim>\<open>b\<close> is a pointer, the caller sees the changes).
\<close>

definition Build_init ::
  "env \<Rightarrow> ArtifactsBuilder \<Rightarrow> oscall list \<Rightarrow> (error + output) \<times> ArtifactsBuilder \<times> oscall list" where
  "Build_init e b w =
     (case GetHomeDir e w of
        (Inl err, w1) \<Rightarrow> (Inl err, b, w1)
      | (Inr home, w1) \<Rightarrow>
          (let b1 = (if outputDir b = [] then b\<lparr>outputDir := filepath_Join e [home, ''devnet'']\<rparr> else b);
               out = \<lparr>dst = outputDir b1, homeDir = home\<rparr>
           in case Exists e out [] w1 of
                (True, w2) \<Rightarrow>
                  (case Remove e out [] w2 of
                     (Some err, w3) \<Rightarrow> (Inl err, b1, w3)
                   | (None, w3) \<Rightarrow> (Inr out, Build_clamp b1, w3))
              | (False, w2) \<Rightarrow> (Inr out, Build_clamp b1, w2)))"

text \<open>
  Line 136:
  \<^verbatim>\<open>genesisTime := uint64(time.Now().Add(time.Duration(b.genesisDelay) * time.Second).Unix())\<close>.
  \<^verbatim>\<open>time.Duration\<close> is an int64 of nanoseconds: the conversion keeps the bits, the
  product wraps, and the clock gets the signed value. \<open>time_Now_Add_Unix d\<close> is
  \<^verbatim>\<open>time.Now().Add(d).Unix()\<close>.
\<close>

definition Build_genesisTime :: "env \<Rightarrow> ArtifactsBuilder \<Rightarrow> 64 word" where
  "Build_genesisTime e b =
     word_of_int (time_Now_Add_Unix e (sint (genesisDelay b * 1000000000)))"

text \<open>Lines 588-599.\<close>

definition prefundedAccounts :: "string list" where
  "prefundedAccounts =
     [''0xac0974bec39a17e36ba4a6b4d238ff944bacb478cbed5efcae784d7bf4f2ff80'',
      ''0x59c6995e998f97a5a0044966f0945389dc9e86dae88c7a8412f4603b6b78690d'',
      ''0x5de4111afa1a4b94908f83103eb1f1706367c2e68ca870fc3fb9a804cdab365a'',
      ''0x7c852118294e51e653712a81e05800f419141751be58f605c371e15141b007a6'',
      ''0x47e179ec197488593b187f80a00eb0da91f1b9d0b13f8733639f19c30a34926a'',
      ''0x8b3a350cf5c34c9194ca85829a2df0ec3153be0318b5e2d3348e872092edffba'',
      ''0x92db14e403b83dfe3df233f83dfa3a0d7096f21ca9b0d6d6b8d88b2b4ec1564e'',
      ''0x4bbbf85ce3377467afe5d46f804f221813b2bb87f24d81f60f1fcdbf7cbf4356'',
      ''0xdbda1821b80551c9d65939329250298aa3472ba22feea921c0cf5d620ea67b97'',
      ''0x2a871d0798f97d79848a013d4936a73bf4cc922c825d33c1cf7073dff6d409c6'']"

text \<open>\<^verbatim>\<open>strings.TrimPrefix\<close>.\<close>

definition TrimPrefix :: "string \<Rightarrow> string \<Rightarrow> string" where
  "TrimPrefix s p = (if take (length p) s = p then drop (length p) s else s)"

text \<open>\<^verbatim>\<open>getPrivKey\<close> (lines 327-338).\<close>

definition getPrivKey :: "env \<Rightarrow> string \<Rightarrow> error + ecdsa_PrivateKey" where
  "getPrivKey e privStr =
     (case hex_DecodeString e (TrimPrefix privStr ''0x'') of
        Inl err \<Rightarrow> Inl err
      | Inr privBuf \<Rightarrow>
          (case ecrypto_ToECDSA e privBuf of
             Inl err \<Rightarrow> Inl err
           | Inr priv \<Rightarrow> Inr priv))"

text \<open>
  Line 144: \<^verbatim>\<open>new(big.Int).SetString("10000000000000000000000", 16)\<close>, a one and
  twenty-two zeros read in base 16.
\<close>

definition prefundedBalance :: int where
  "prefundedBalance = 16 ^ 22"

definition prefundedAccount :: account where
  "prefundedAccount =
     \<lparr>Code = [], Storage = Map.empty, Balance = prefundedBalance, Nonce = 1, PrivateKey = []\<rparr>"

text \<open>Lines 146-156: the loop over \<^verbatim>\<open>prefundedAccounts\<close>, on the map \<^verbatim>\<open>gen.Alloc\<close>.\<close>

fun Build_prefund ::
  "env \<Rightarrow> string list \<Rightarrow> (address \<rightharpoonup> account) \<Rightarrow> error + (address \<rightharpoonup> account)" where
  "Build_prefund e [] alloc = Inr alloc"
| "Build_prefund e (privStr # rest) alloc =
     (case getPrivKey e privStr of
        Inl err \<Rightarrow> Inl err
      | Inr priv \<Rightarrow>
          Build_prefund e rest
            (alloc(ecrypto_PubkeyToAddress e (PublicKey priv) \<mapsto> prefundedAccount)))"

text \<open>
  Lines 159-188: the embedded state is decoded (JSON field \<^verbatim>\<open>l1StateDump\<close>, base64,
  gzip, JSON) into a map from addresses to accounts.
\<close>

definition Build_decodeState :: "env \<Rightarrow> error + (address \<rightharpoonup> account)" where
  "Build_decodeState e =
     (case json_Unmarshal_state e (opState e) of
        Inl err \<Rightarrow> Inl (Errorf_w ''failed to unmarshal opState'' err)
      | Inr l1StateDump \<Rightarrow>
     (case base64_DecodeString e l1StateDump of
        Inl err \<Rightarrow> Inl (Errorf_w ''failed to decode opState'' err)
      | Inr decoded \<Rightarrow>
     (case gzip_NewReader e decoded of
        Inl err \<Rightarrow> Inl (Errorf_w ''failed to create gzip reader'' err)
      | Inr gr \<Rightarrow>
     (case io_ReadAll e gr of
        Inl err \<Rightarrow> Inl (Errorf_w ''failed to read opState'' err)
      | Inr contents \<Rightarrow>
     (case json_Unmarshal_GenesisAlloc e contents of
        Inl err \<Rightarrow> Inl (Errorf_w ''failed to unmarshal opState'' err)
      | Inr alloc \<Rightarrow> Inr alloc)))))"

text \<open>
  Lines 144-192. \<^verbatim>\<open>for addr, account := range alloc { gen.Alloc[addr] = account }\<close>
  stores every entry of the decoded map, whose keys are unique: the result is the
  allocation overridden by the decoded map.
\<close>

definition Build_alloc :: "env \<Rightarrow> (address \<rightharpoonup> account) \<Rightarrow> error + (address \<rightharpoonup> account)" where
  "Build_alloc e genAlloc =
     (case Build_prefund e prefundedAccounts genAlloc of
        Inl err \<Rightarrow> Inl err
      | Inr alloc1 \<Rightarrow>
          (case Build_decodeState e of
             Inl err \<Rightarrow> Inl err
           | Inr alloc \<Rightarrow> Inr (alloc1 ++ alloc)))"

text \<open>The override literal of lines 258-275.\<close>

definition rollup_overrides :: "64 word \<Rightarrow> string \<Rightarrow> string \<Rightarrow> (string \<times> val) list" where
  "rollup_overrides opTimestamp l1Hash opGenesisHash =
     [(''genesis'', VMap
         [(''l2_time'', VUint64 opTimestamp),
          (''l1'', VMap [(''hash'', VString l1Hash), (''number'', VInt 0)]),
          (''l2'', VMap [(''hash'', VString opGenesisHash), (''number'', VInt 0)])]),
      (''chain_op_config'', VMap
         [(''eip1559Elasticity'', VInt 6),
          (''eip1559Denominator'', VInt 50),
          (''eip1559DenominatorCanyon'', VInt 250)])]"

text \<open>
  Lines 238-286, given \<^verbatim>\<open>genesisTime\<close> and \<^verbatim>\<open>block.Hash().String()\<close> of the
  L1 genesis block. \<open>Genesis_ToBlock_Hash_String g\<close> is \<^verbatim>\<open>g.ToBlock().Hash().String()\<close>.
\<close>

definition Build_l2 ::
  "env \<Rightarrow> 64 word \<Rightarrow> string \<Rightarrow> output \<Rightarrow> oscall list \<Rightarrow> (error option \<times> oscall list) outcome" where
  "Build_l2 e genesisTime l1Hash out w =
     (let opTimestamp = genesisTime + 2 in
      case overrideJSON e (opGenesis e)
             [(''timestamp'', VString (hexutil_Uint64_String e opTimestamp))] of
        Panic msg \<Rightarrow> Panic msg
      | Return (Inl err) \<Rightarrow> Return (Some err, w)
      | Return (Inr newOpGenesis) \<Rightarrow>
          (case json_Unmarshal_Genesis e newOpGenesis of
             Inl err \<Rightarrow> Return (Some (Errorf_w ''failed to unmarshal opGenesis'' err), w)
           | Inr opGenesisObj \<Rightarrow>
               (let opGenesisHash = Genesis_ToBlock_Hash_String e opGenesisObj in
                case overrideJSON e (opRollupConfig e)
                       (rollup_overrides opTimestamp l1Hash opGenesisHash) of
                  Panic msg \<Rightarrow> Panic msg
                | Return (Inl err) \<Rightarrow> Return (Some err, w)
                | Return (Inr newOpRollup) \<Rightarrow>
                    (case WriteFile e out ''l2-genesis.json'' (Bytes newOpGenesis) w of
                       (Some err, w1) \<Rightarrow> Return (Some err, w1)
                     | (None, w1) \<Rightarrow>
                         Return (WriteFile e out ''rollup.json'' (Bytes newOpRollup) w1)))))"

subsection \<open>An example environment\<close>

text \<open>
  The theorems below hold for every environment. Their instances at concrete inputs are
  evaluated in the environment \<open>ex_env\<close>: a home directory \<^verbatim>\<open>/home/user\<close>, a file
  system on which every call succeeds and \<^verbatim>\<open>/home/user/.playground/devnet\<close> exists
  until it is removed, a JSON encoder for values without floats and without characters
  to escape in strings (keys sorted, as encoding/json does; tab indentation for
  \<^verbatim>\<open>MarshalIndent\<close>; a func has no encoding), and a JSON decoder tabulated on the
  documents that the instances use. Among them is \<^verbatim>\<open>{"m":1e400}\<close>, a JSON object
  whose number is outside float64: \<^verbatim>\<open>json.Unmarshal\<close> into
  \<^verbatim>\<open>map[string]interface{}\<close> decodes numbers to float64 and returns an error for it.
\<close>

function dec_nat :: "nat \<Rightarrow> string" where
  "dec_nat n =
     (if n < 10 then [''0123456789'' ! n]
      else dec_nat (n div 10) @ [''0123456789'' ! (n mod 10)])"
  by pat_completeness auto
termination
  by (relation "measure id") auto

definition dec_int :: "int \<Rightarrow> string" where
  "dec_int i = (if i < 0 then CHR ''-'' # dec_nat (nat (- i)) else dec_nat (nat i))"

definition quoted :: "string \<Rightarrow> string" where
  "quoted s = [CHR 0x22] @ s @ [CHR 0x22]"

fun join :: "string \<Rightarrow> string list \<Rightarrow> string" where
  "join sep [] = []"
| "join sep [x] = x"
| "join sep (x # xs) = x @ sep @ join sep xs"

text \<open>\<open>ind\<close> is \<open>None\<close> for the compact form, the depth for the indented form.\<close>

definition newline :: "nat option \<Rightarrow> string" where
  "newline ind = (case ind of None \<Rightarrow> [] | Some n \<Rightarrow> CHR 0x0A # replicate n (CHR 0x09))"

definition bracket :: "nat option \<Rightarrow> string \<Rightarrow> string \<Rightarrow> string list \<Rightarrow> string" where
  "bracket ind l r items =
     (if items = [] then l @ r
      else l @ newline (map_option Suc ind)
             @ join ('','' @ newline (map_option Suc ind)) items
             @ newline ind @ r)"

fun ex_encode :: "nat option \<Rightarrow> val \<Rightarrow> string option"
and ex_encode_elems :: "nat option \<Rightarrow> val list \<Rightarrow> string list option"
and ex_encode_members :: "nat option \<Rightarrow> (string \<times> val) list \<Rightarrow> (string \<times> string) list option" where
  "ex_encode ind VNil = Some ''null''"
| "ex_encode ind (VBool b) = Some (if b then ''true'' else ''false'')"
| "ex_encode ind (VFloat64 f) = None"
| "ex_encode ind (VInt i) = Some (dec_int i)"
| "ex_encode ind (VUint64 n) = Some (dec_nat (unat n))"
| "ex_encode ind (VString s) = Some (quoted s)"
| "ex_encode ind (VSlice vs) =
     map_option (bracket ind ''['' '']'') (ex_encode_elems (map_option Suc ind) vs)"
| "ex_encode ind (VMap m) =
     map_option
       (\<lambda>kvs. bracket ind ''{'' ''}''
          (map (\<lambda>(k, s). quoted k @ (if ind = None then '':'' else '': '') @ s)
             (sort_key fst kvs)))
       (ex_encode_members (map_option Suc ind) m)"
| "ex_encode ind VFunc = None"
| "ex_encode_elems ind [] = Some []"
| "ex_encode_elems ind (v # vs) =
     (case ex_encode ind v of
        None \<Rightarrow> None
      | Some s \<Rightarrow> map_option ((#) s) (ex_encode_elems ind vs))"
| "ex_encode_members ind [] = Some []"
| "ex_encode_members ind ((k, v) # m) =
     (case ex_encode ind v of
        None \<Rightarrow> None
      | Some s \<Rightarrow> map_option ((#) (k, s)) (ex_encode_members ind m))"

definition ex_Marshal :: "nat option \<Rightarrow> val \<Rightarrow> error + string" where
  "ex_Marshal ind v =
     (case ex_encode ind v of
        None \<Rightarrow> Inl (External ''json: unsupported type'')
      | Some s \<Rightarrow> Inr s)"

definition ex_Unmarshal :: "string \<Rightarrow> error + (string \<times> val) list option" where
  \<open>ex_Unmarshal doc =
     (if doc = ''null'' then Inr None
      else if doc = ''{}'' then Inr (Some [])
      else if doc = ''{"a":true}'' then Inr (Some [(''a'', VBool True)])
      else if doc = ''{"timestamp":"0x0"}'' then Inr (Some [(''timestamp'', VString ''0x0'')])
      else if doc = ''{"genesis":{"l2":{"hash":"0x00"}}}''
        then Inr (Some [(''genesis'', VMap [(''l2'', VMap [(''hash'', VString ''0x00'')])])])
      else if doc = ''{"m":1e400}''
        then Inl (External ''json: cannot unmarshal number 1e400 into Go value of type float64'')
      else Inl (External ''json: cannot unmarshal into Go value of type map[string]interface {}''))\<close>

text \<open>A YAML encoder for maps of strings, one \<^verbatim>\<open>key: value\<close> line each.\<close>

fun ex_yaml_lines :: "(string \<times> val) list \<Rightarrow> string option" where
  "ex_yaml_lines [] = Some []"
| "ex_yaml_lines ((k, VString s) # m) =
     map_option (\<lambda>r. k @ '': '' @ s @ [CHR 0x0A] @ r) (ex_yaml_lines m)"
| "ex_yaml_lines _ = None"

definition ex_yaml_Marshal :: "val \<Rightarrow> error + string" where
  "ex_yaml_Marshal v =
     (case v of
        VMap m \<Rightarrow>
          (case ex_yaml_lines (sort_key fst m) of
             None \<Rightarrow> Inl (External ''yaml: value outside the example'')
           | Some s \<Rightarrow> Inr s)
      | _ \<Rightarrow> Inl (External ''yaml: value outside the example''))"

text \<open>
  \<^verbatim>\<open>filepath.Join\<close> and \<^verbatim>\<open>filepath.Dir\<close> on paths that are clean already:
  the elements that are not empty, with a separator between them; the path up to its
  last separator.
\<close>

definition ex_Join :: "string list \<Rightarrow> string" where
  "ex_Join elems = join ''/'' (filter (\<lambda>x. x \<noteq> []) elems)"

definition ex_Dir :: "string \<Rightarrow> string" where
  "ex_Dir path =
     (if CHR ''/'' \<notin> set path then ''.''
      else rev (tl (dropWhile (\<lambda>c. c \<noteq> CHR ''/'') (rev path))))"

definition ex_os :: "oscall list \<Rightarrow> oscall \<Rightarrow> error option" where
  "ex_os w c =
     (case c of
        Stat path \<Rightarrow>
          (if path = ''/home/user/.playground/devnet'' \<and> RemoveAll path \<notin> set w then None
           else Some (External ''stat: no such file or directory''))
      | _ \<Rightarrow> None)"

text \<open>Lower-case hexadecimal digits of a number, and of the bytes of a string.\<close>

function hex_nat :: "nat \<Rightarrow> string" where
  "hex_nat n =
     (if n < 16 then [''0123456789abcdef'' ! n]
      else hex_nat (n div 16) @ [''0123456789abcdef'' ! (n mod 16)])"
  by pat_completeness auto
termination
  by (relation "measure id") auto

definition ex_hex :: "string \<Rightarrow> string" where
  "ex_hex bs =
     concat (map (\<lambda>c. [''0123456789abcdef'' ! (of_char c div 16),
                        ''0123456789abcdef'' ! (of_char c mod 16)]) bs)"

text \<open>
  Keys, addresses and hashes of the example are made up: a private key string is its own
  key material, the address of a public key is the code of its first byte, a block hash
  spells out the timestamp. The decoded state dump holds one account, at address 97,
  which is the address of the first prefunded key.
\<close>

definition ex_dump_account :: account where
  "ex_dump_account = \<lparr>Code = [], Storage = Map.empty, Balance = 7, Nonce = 0, PrivateKey = []\<rparr>"

definition ex_opGenesis :: string where
  \<open>ex_opGenesis = ''{"timestamp":"0x0"}''\<close>

definition ex_opRollupConfig :: string where
  \<open>ex_opRollupConfig = ''{"genesis":{"l2":{"hash":"0x00"}}}''\<close>

definition ex_Unmarshal_Genesis :: "string \<Rightarrow> error + Genesis" where
  \<open>ex_Unmarshal_Genesis doc =
     (if doc = ''{"timestamp":"0x0"}'' then Inr \<lparr>Timestamp = 0, Other = []\<rparr>
      else if doc = ''{"timestamp":"0x2a"}'' then Inr \<lparr>Timestamp = 42, Other = []\<rparr>
      else Inl (External ''json: cannot unmarshal into Go value of type core.Genesis''))\<close>

definition ex_env :: env where
  "ex_env =
     \<lparr>json_Unmarshal = ex_Unmarshal,
      json_Marshal = ex_Marshal None,
      json_MarshalIndent = ex_Marshal (Some 0),
      yaml_Marshal = ex_yaml_Marshal,
      filepath_Join = ex_Join,
      filepath_Dir = ex_Dir,
      os_UserHomeDir = Inr ''/home/user'',
      os_result = ex_os,
      time_Now_Add_Unix = (\<lambda>d. 1700000000 + d div 1000000000),
      hex_DecodeString = (\<lambda>s. Inr s),
      hex_EncodeToString = ex_hex,
      ecrypto_ToECDSA = (\<lambda>s. Inr (ECDSA_PrivateKey (int (length s)) s)),
      ecrypto_PubkeyToAddress = (\<lambda>s. case s of [] \<Rightarrow> 0 | c # _ \<Rightarrow> of_nat (of_char c)),
      opState = ''state'',
      opGenesis = ex_opGenesis,
      opRollupConfig = ex_opRollupConfig,
      json_Unmarshal_state = (\<lambda>s. Inr s),
      base64_DecodeString = (\<lambda>s. Inr s),
      gzip_NewReader = (\<lambda>s. Inr s),
      io_ReadAll = (\<lambda>s. Inr s),
      json_Unmarshal_GenesisAlloc = (\<lambda>s. Inr [97 \<mapsto> ex_dump_account]),
      hexutil_Uint64_String = (\<lambda>n. ''0x'' @ hex_nat (unat n)),
      json_Unmarshal_Genesis = ex_Unmarshal_Genesis,
      Genesis_ToBlock_Hash_String = (\<lambda>g. ''0xhash'' @ hex_nat (unat (Timestamp g))),
      keystorev4_Encrypt = (\<lambda>i key password. Inr [(''cipher'', VString (ex_hex key))]),
      uuid_GenerateUUID = (\<lambda>i. Inr (''uuid-'' @ dec_nat i)),
      range_secrets_first = (\<lambda>i. odd i)\<rparr>"

text \<open>
  For the L2 block the example encoder is kept to the two documents that the block
  serialises there (genesis time 40, L1 hash \<^verbatim>\<open>0xl1\<close>), so that what was encoded can
  be told from the bytes.
\<close>

definition ex_l2_Marshal :: "val \<Rightarrow> error + string" where
  "ex_l2_Marshal v =
     (if v = VMap [(''timestamp'', VString ''0x2a'')]
         \<or> v = VMap (mergeMap [(''genesis'', VMap [(''l2'', VMap [(''hash'', VString ''0x00'')])])]
                    (rollup_overrides 42 ''0xl1'' ''0xhash2a''))
      then ex_Marshal None v
      else Inl (External ''json: value outside the example''))"

definition ex_l2_env :: env where
  "ex_l2_env = ex_env\<lparr>json_Marshal := ex_l2_Marshal\<rparr>"

section \<open>Properties\<close>

declare dec_nat.simps [simp del] hex_nat.simps [simp del]

lemma ex_env_fields:
  "json_Unmarshal ex_env = ex_Unmarshal"
  "json_Marshal ex_env = ex_Marshal None"
  "json_MarshalIndent ex_env = ex_Marshal (Some 0)"
  "yaml_Marshal ex_env = ex_yaml_Marshal"
  "filepath_Join ex_env = ex_Join"
  "filepath_Dir ex_env = ex_Dir"
  "os_UserHomeDir ex_env = Inr ''/home/user''"
  "os_result ex_env = ex_os"
  "time_Now_Add_Unix ex_env = (\<lambda>d. 1700000000 + d div 1000000000)"
  by (simp_all add: ex_env_def)

subsection \<open>The JSON patch engine\<close>

lemma mergeMap_step:
  "mergeMap d ((key, srcVal) # src) =
     mergeMap (AList.update key (merge_entry d key srcVal) d) src"
  by (simp add: merge_entry_def split: option.splits val.splits)

lemma mergeMap_lookup:
  "distinct (map fst src) \<Longrightarrow>
   map_of (mergeMap d src) k =
     (case map_of src k of
        None \<Rightarrow> map_of d k
      | Some srcVal \<Rightarrow> Some (merge_entry d k srcVal))"
proof (induction src arbitrary: d)
  case Nil
  then show ?case by simp
next
  case (Cons a src)
  obtain key srcVal where a: "a = (key, srcVal)" by (cases a)
  from Cons.prems a have dis: "distinct (map fst src)" and nk: "map_of src key = None"
    by (auto simp: map_of_eq_None_iff)
  let ?d1 = "AList.update key (merge_entry d key srcVal) d"
  have IH: "map_of (mergeMap ?d1 src) k =
     (case map_of src k of None \<Rightarrow> map_of ?d1 k | Some v \<Rightarrow> Some (merge_entry ?d1 k v))"
    by (rule Cons.IH [OF dis])
  show ?case
  proof (cases "k = key")
    case True
    with nk IH show ?thesis
      unfolding a mergeMap_step by (simp add: update_conv')
  next
    case False
    then have "merge_entry ?d1 k v = merge_entry d k v" for v
      by (simp add: merge_entry_def update_conv')
    with False IH show ?thesis
      unfolding a mergeMap_step by (simp add: update_conv' split: option.split)
  qed
qed

lemma mergeMap_keys: "fst ` set (mergeMap d src) = fst ` set d \<union> fst ` set src"
proof (induction src arbitrary: d)
  case Nil
  then show ?case by simp
next
  case (Cons a src)
  obtain key srcVal where a: "a = (key, srcVal)" by (cases a)
  show ?case unfolding a mergeMap_step by (simp add: Cons.IH dom_update)
qed

text \<open>
  Claim C2. \<^verbatim>\<open>mergeMap\<close> merges \<open>src\<close> into \<open>d\<close> key by key. Under a key of \<open>src\<close>
  the result holds the recursive merge when the old and the new value are both objects,
  and the new value in every other case (an array or a scalar replaces and is replaced
  whole); under a key that \<open>src\<close> does not have, \<open>d\<close> is unchanged; the keys of the
  result are those of \<open>d\<close> and of \<open>src\<close>; the order in which the loop visits the keys
  does not show in any of this. In particular
  \<^verbatim>\<open>{"a": {"b": 0, "c": 2}}\<close> patched with \<^verbatim>\<open>{"a": {"b": 1}}\<close> is
  \<^verbatim>\<open>{"a": {"b": 1, "c": 2}}\<close>. The keys of a Go map are distinct.
\<close>

theorem mergeMap_key_by_key:
  "distinct (map fst src) \<Longrightarrow>
     map_of (mergeMap d src) k =
       (case map_of src k of
          None \<Rightarrow> map_of d k
        | Some srcVal \<Rightarrow>
            (case (map_of d k, srcVal) of
               (Some (VMap dstMap), VMap srcMap) \<Rightarrow> Some (VMap (mergeMap dstMap srcMap))
             | _ \<Rightarrow> Some srcVal))
     \<and> fst ` set (mergeMap d src) = fst ` set d \<union> fst ` set src
     \<and> mergeMap [(''a'', VMap [(''b'', VInt 0), (''c'', VInt 2)])] [(''a'', VMap [(''b'', VInt 1)])]
         = [(''a'', VMap [(''b'', VInt 1), (''c'', VInt 2)])]"
proof (intro conjI)
  assume dis: "distinct (map fst src)"
  show "map_of (mergeMap d src) k =
       (case map_of src k of
          None \<Rightarrow> map_of d k
        | Some srcVal \<Rightarrow>
            (case (map_of d k, srcVal) of
               (Some (VMap dstMap), VMap srcMap) \<Rightarrow> Some (VMap (mergeMap dstMap srcMap))
             | _ \<Rightarrow> Some srcVal))"
  proof (cases "map_of src k")
    case None
    then show ?thesis by (simp add: mergeMap_lookup [OF dis])
  next
    case (Some srcVal)
    then show ?thesis
      by (simp add: mergeMap_lookup [OF dis] merge_entry_def split: option.splits val.splits)
  qed
next
  show "fst ` set (mergeMap d src) = fst ` set d \<union> fst ` set src"
    by (rule mergeMap_keys)
next
  show "mergeMap [(''a'', VMap [(''b'', VInt 0), (''c'', VInt 2)])] [(''a'', VMap [(''b'', VInt 1)])]
         = [(''a'', VMap [(''b'', VInt 1), (''c'', VInt 2)])]"
    by simp
qed

theorem mergeMap_key_by_key_witness:
  "distinct (map fst [(''a'', VMap [(''b'', VInt 1)]), (''n'', VSlice [VInt 9])])
   \<and> map_of (mergeMap [(''a'', VMap [(''b'', VInt 0), (''c'', VInt 2)]),
                        (''n'', VSlice [VInt 7, VInt 8]), (''z'', VBool True)]
               [(''a'', VMap [(''b'', VInt 1)]), (''n'', VSlice [VInt 9])]) ''a''
       = Some (VMap [(''b'', VInt 1), (''c'', VInt 2)])
   \<and> map_of (mergeMap [(''a'', VMap [(''b'', VInt 0), (''c'', VInt 2)]),
                        (''n'', VSlice [VInt 7, VInt 8]), (''z'', VBool True)]
               [(''a'', VMap [(''b'', VInt 1)]), (''n'', VSlice [VInt 9])]) ''n''
       = Some (VSlice [VInt 9])"
  using
    mergeMap_key_by_key [of "[(''a'', VMap [(''b'', VInt 1)]), (''n'', VSlice [VInt 9])]"
      "[(''a'', VMap [(''b'', VInt 0), (''c'', VInt 2)]),
        (''n'', VSlice [VInt 7, VInt 8]), (''z'', VBool True)]" "''a''"]
    mergeMap_key_by_key [of "[(''a'', VMap [(''b'', VInt 1)]), (''n'', VSlice [VInt 9])]"
      "[(''a'', VMap [(''b'', VInt 0), (''c'', VInt 2)]),
        (''n'', VSlice [VInt 7, VInt 8]), (''z'', VBool True)]" "''n''"]
  by simp

subsection \<open>The output writer\<close>

text \<open>
  Claim C10. \<^verbatim>\<open>Exists\<close> does not look at its argument: for every path it asks
  \<^verbatim>\<open>os.Stat\<close> about the root directory \<^verbatim>\<open>filepath.Join(o.dst)\<close> and answers
  whether that call succeeded, so \<open>Exists p\<close> is \<open>Exists ""\<close>.
\<close>

theorem Exists_ignores_path:
  "Exists e out path w = Exists e out [] w
   \<and> Exists e out path w
       = (os_result e w (Stat (filepath_Join e [dst out])) = None,
          w @ [Stat (filepath_Join e [dst out])])"
proof -
  have stat: "Exists e out p w
       = (os_result e w (Stat (filepath_Join e [dst out])) = None,
          w @ [Stat (filepath_Join e [dst out])])" for p
    by (simp add: Exists_def os_call_def)
  show ?thesis
    unfolding stat [of path] stat [of "[]"] by simp
qed

subsection \<open>The builder and the genesis delay\<close>

lemma ex_Build_init:
  "Build_init ex_env (GenesisDelay 5 NewArtifactsBuilder) []
     = (Inr \<lparr>dst = ''/home/user/.playground/devnet'', homeDir = ''/home/user/.playground''\<rparr>,
        \<lparr>outputDir = ''/home/user/.playground/devnet'', applyLatestL1Fork = False,
           genesisDelay = 10\<rparr>,
        [MkdirAll ''/home/user/.playground'' 493, Stat ''/home/user/.playground/devnet'',
         RemoveAll ''/home/user/.playground/devnet''])"
  by (simp add: Build_init_def GetHomeDir_def ex_env_fields os_call_def ex_os_def ex_Join_def
      Exists_def Remove_def Build_clamp_def GenesisDelay_def NewArtifactsBuilder_def
      MinimumGenesisDelay_def Let_def)

text \<open>
  Claim C4. When \<^verbatim>\<open>Build\<close> gets to line 113, the delay it leaves in the builder, and
  then multiplies by \<^verbatim>\<open>time.Second\<close> in line 136, is \<^verbatim>\<open>MinimumGenesisDelay\<close> for a
  configured delay below the minimum and the configured delay otherwise.
\<close>

theorem Build_effective_genesisDelay:
  "Build_init e b w = (Inr out, b', w') \<Longrightarrow>
     genesisDelay b' =
       (if genesisDelay b < MinimumGenesisDelay then MinimumGenesisDelay else genesisDelay b)
     \<and> Build_genesisTime e b' =
         word_of_int (time_Now_Add_Unix e (sint
           ((if genesisDelay b < MinimumGenesisDelay then MinimumGenesisDelay
             else genesisDelay b) * 1000000000)))"
  by (auto simp: Build_init_def Build_clamp_def Build_genesisTime_def Let_def
      split: prod.splits sum.splits bool.splits option.splits if_splits)

theorem Build_effective_genesisDelay_witness:
  "Build_init ex_env (GenesisDelay 5 NewArtifactsBuilder) []
     = (Inr \<lparr>dst = ''/home/user/.playground/devnet'', homeDir = ''/home/user/.playground''\<rparr>,
        \<lparr>outputDir = ''/home/user/.playground/devnet'', applyLatestL1Fork = False,
           genesisDelay = 10\<rparr>,
        [MkdirAll ''/home/user/.playground'' 493, Stat ''/home/user/.playground/devnet'',
         RemoveAll ''/home/user/.playground/devnet''])
   \<and> Build_genesisTime ex_env
        \<lparr>outputDir = ''/home/user/.playground/devnet'', applyLatestL1Fork = False,
           genesisDelay = 10\<rparr>
       = 1700000010"
  using ex_Build_init Build_effective_genesisDelay [OF ex_Build_init]
  by (simp add: GenesisDelay_def NewArtifactsBuilder_def MinimumGenesisDelay_def ex_env_fields)

text \<open>
  The product of line 136 is an int64. Up to 9223372036 seconds it does not wrap, and the
  clock is asked for the time that many seconds from now.
\<close>

lemma Build_genesisTime_seconds:
  assumes a: "genesisDelay b < 9223372037"
  shows "Build_genesisTime e b =
    word_of_int (time_Now_Add_Unix e (uint (genesisDelay b) * 1000000000))"
proof -
  let ?d = "genesisDelay b"
  have u: "uint ?d < 9223372037" using a by (simp add: word_less_def)
  have lt: "uint ?d * 1000000000 < 2 ^ 63" using u by simp
  have m: "uint (?d * 1000000000) = uint ?d * 1000000000"
    using uint_mult_lem [of ?d "1000000000 :: 64 word"] lt by simp
  have "sint (?d * 1000000000) = signed_take_bit 63 (uint (?d * 1000000000))"
    by (simp add: sint_uint)
  also have "\<dots> = uint ?d * 1000000000"
  proof -
    have "0 \<le> uint ?d * 1000000000" by simp
    moreover have "- (2 ^ 63) \<le> (0::int)" by simp
    ultimately have "- (2 ^ 63) \<le> uint ?d * 1000000000" by (rule order_trans [rotated])
    then show ?thesis unfolding m using lt by (intro signed_take_bit_int_eq_self)
  qed
  finally show ?thesis by (simp add: Build_genesisTime_def)
qed

text \<open>
  Claim C6, as the source has it. The setter \<^verbatim>\<open>GenesisDelay\<close> stores its argument
  unchanged, so \<^verbatim>\<open>genesisDelay >= MinimumGenesisDelay\<close> does not hold after
  \<^verbatim>\<open>NewArtifactsBuilder().GenesisDelay(5)\<close>.
\<close>

theorem GenesisDelay_breaks_invariant:
  "\<not> MinimumGenesisDelay \<le> genesisDelay (GenesisDelay 5 NewArtifactsBuilder)"
  by (simp add: GenesisDelay_def MinimumGenesisDelay_def)

text \<open>
  Claim C6, amended. The bound holds for the builder \<^verbatim>\<open>NewArtifactsBuilder\<close> returns;
  \<^verbatim>\<open>OutputDir\<close>, \<^verbatim>\<open>ApplyLatestL1Fork\<close> and \<^verbatim>\<open>Build\<close> preserve it;
  after \<^verbatim>\<open>GenesisDelay(d)\<close> it holds exactly when \<open>d\<close> is at least the minimum;
  the clamp of \<^verbatim>\<open>Build\<close> establishes it, so it holds whenever \<^verbatim>\<open>Build\<close> gets
  past the removal of the output directory, whatever the builder held before.
  (\<^verbatim>\<open>Build\<close> assigns to the builder in lines 100 and 115 only, so the builder that
  \<open>Build_init\<close> leaves is the builder that \<^verbatim>\<open>Build\<close> leaves.)
\<close>

theorem genesisDelay_invariant:
  "MinimumGenesisDelay \<le> genesisDelay NewArtifactsBuilder
   \<and> (MinimumGenesisDelay \<le> genesisDelay b \<longrightarrow>
        MinimumGenesisDelay \<le> genesisDelay (OutputDir dir b)
        \<and> MinimumGenesisDelay \<le> genesisDelay (ApplyLatestL1Fork flag b)
        \<and> MinimumGenesisDelay \<le> genesisDelay (fst (snd (Build_init e b w))))
   \<and> (MinimumGenesisDelay \<le> genesisDelay (GenesisDelay d b) \<longleftrightarrow> MinimumGenesisDelay \<le> d)
   \<and> MinimumGenesisDelay \<le> genesisDelay (Build_clamp b)
   \<and> (\<forall>out. fst (Build_init e b w) = Inr out \<longrightarrow>
        MinimumGenesisDelay \<le> genesisDelay (fst (snd (Build_init e b w))))"
  by (auto simp: NewArtifactsBuilder_def OutputDir_def ApplyLatestL1Fork_def GenesisDelay_def
      Build_init_def Build_clamp_def Let_def
      split: prod.splits sum.splits bool.splits option.splits if_splits)

theorem genesisDelay_invariant_witness:
  "MinimumGenesisDelay \<le> genesisDelay NewArtifactsBuilder
   \<and> MinimumGenesisDelay \<le> genesisDelay (OutputDir ''out'' NewArtifactsBuilder)
   \<and> MinimumGenesisDelay \<le> genesisDelay (ApplyLatestL1Fork True NewArtifactsBuilder)
   \<and> MinimumGenesisDelay \<le> genesisDelay (fst (snd (Build_init ex_env NewArtifactsBuilder [])))
   \<and> MinimumGenesisDelay \<le> genesisDelay (GenesisDelay 12 NewArtifactsBuilder)
   \<and> fst (Build_init ex_env (GenesisDelay 5 NewArtifactsBuilder) [])
       = Inr \<lparr>dst = ''/home/user/.playground/devnet'', homeDir = ''/home/user/.playground''\<rparr>
   \<and> MinimumGenesisDelay
       \<le> genesisDelay (fst (snd (Build_init ex_env (GenesisDelay 5 NewArtifactsBuilder) [])))"
  using genesisDelay_invariant [of NewArtifactsBuilder "''out''" True ex_env "[]" 12]
    genesisDelay_invariant [of "GenesisDelay 5 NewArtifactsBuilder" "''out''" True ex_env "[]" 12]
    ex_Build_init
  by (simp add: MinimumGenesisDelay_def)

subsection \<open>The execution-layer allocation\<close>

lemma Build_prefund_result:
  "Build_prefund e ps alloc = Inr alloc' \<Longrightarrow>
     (\<forall>p\<in>set ps. \<exists>priv. getPrivKey e p = Inr priv
         \<and> alloc' (ecrypto_PubkeyToAddress e (PublicKey priv)) = Some prefundedAccount)
     \<and> (\<forall>a. alloc' a = Some prefundedAccount \<or> alloc' a = alloc a)"
proof (induction ps arbitrary: alloc)
  case Nil
  then show ?case by simp
next
  case (Cons p ps)
  from Cons.prems obtain priv where
    k: "getPrivKey e p = Inr priv" and
    r: "Build_prefund e ps (alloc(ecrypto_PubkeyToAddress e (PublicKey priv) \<mapsto> prefundedAccount)) = Inr alloc'"
    by (auto split: sum.splits)
  note IH = Cons.IH [OF r]
  from IH have here: "alloc' (ecrypto_PubkeyToAddress e (PublicKey priv)) = Some prefundedAccount"
    by (metis fun_upd_same)
  from IH have rest: "\<forall>a. alloc' a = Some prefundedAccount \<or> alloc' a = alloc a"
    by (metis fun_upd_apply)
  from IH k here rest show ?case by auto
qed

text \<open>
  Claim C3. When the allocation stage of \<^verbatim>\<open>Build\<close> succeeds, every address of the
  decoded state dump, prefunded or not, ends with the dump's account; and every prefunded
  key has an address which, when the dump does not have it, ends with the prefunded
  account: the fixed balance (16 to the 22nd) and nonce 1.
\<close>

theorem Build_alloc_external_wins:
  assumes "Build_alloc e genAlloc = Inr final"
  shows "\<exists>dump. Build_decodeState e = Inr dump
     \<and> (\<forall>a account. dump a = Some account \<longrightarrow> final a = Some account)
     \<and> (\<forall>p\<in>set prefundedAccounts. \<exists>priv. getPrivKey e p = Inr priv
           \<and> (dump (ecrypto_PubkeyToAddress e (PublicKey priv)) = None \<longrightarrow>
                final (ecrypto_PubkeyToAddress e (PublicKey priv))
                  = Some \<lparr>Code = [], Storage = Map.empty, Balance = 16 ^ 22, Nonce = 1,
                           PrivateKey = []\<rparr>))"
proof -
  from assms obtain alloc1 dump where
    p: "Build_prefund e prefundedAccounts genAlloc = Inr alloc1" and
    d: "Build_decodeState e = Inr dump" and
    f: "final = alloc1 ++ dump"
    by (auto simp: Build_alloc_def split: sum.splits)
  note P = Build_prefund_result [OF p]
  have 1: "\<forall>a account. dump a = Some account \<longrightarrow> final a = Some account"
    by (simp add: f)
  have 2: "\<forall>p\<in>set prefundedAccounts. \<exists>priv. getPrivKey e p = Inr priv
           \<and> (dump (ecrypto_PubkeyToAddress e (PublicKey priv)) = None \<longrightarrow>
                final (ecrypto_PubkeyToAddress e (PublicKey priv)) = Some prefundedAccount)"
    using P by (auto simp: f map_add_def)
  from d 1 2 show ?thesis
    by (simp add: prefundedAccount_def prefundedBalance_def)
qed

lemma ex_env_alloc_fields:
  "hex_DecodeString ex_env = (\<lambda>s. Inr s)"
  "ecrypto_ToECDSA ex_env = (\<lambda>s. Inr (ECDSA_PrivateKey (int (length s)) s))"
  "ecrypto_PubkeyToAddress ex_env = (\<lambda>s. case s of [] \<Rightarrow> 0 | c # _ \<Rightarrow> of_nat (of_char c))"
  "opState ex_env = ''state''"
  "json_Unmarshal_state ex_env = (\<lambda>s. Inr s)"
  "base64_DecodeString ex_env = (\<lambda>s. Inr s)"
  "gzip_NewReader ex_env = (\<lambda>s. Inr s)"
  "io_ReadAll ex_env = (\<lambda>s. Inr s)"
  "json_Unmarshal_GenesisAlloc ex_env = (\<lambda>s. Inr [97 \<mapsto> ex_dump_account])"
  by (simp_all add: ex_env_def)

lemma ex_decodeState: "Build_decodeState ex_env = Inr [97 \<mapsto> ex_dump_account]"
  by (simp add: Build_decodeState_def ex_env_alloc_fields)

lemma ex_getPrivKey:
  "getPrivKey ex_env (CHR ''0'' # CHR ''x'' # s) = Inr (ECDSA_PrivateKey (int (length s)) s)"
  by (simp add: getPrivKey_def TrimPrefix_def ex_env_alloc_fields)

lemma ex_alloc: "\<exists>final. Build_alloc ex_env Map.empty = Inr final"
  by (simp add: Build_alloc_def prefundedAccounts_def ex_getPrivKey ex_decodeState)

theorem Build_alloc_external_wins_witness:
  "\<exists>final. Build_alloc ex_env Map.empty = Inr final
     \<and> final 97 = Some ex_dump_account
     \<and> final 53 = Some \<lparr>Code = [], Storage = Map.empty, Balance = 16 ^ 22, Nonce = 1, PrivateKey = []\<rparr>"
proof -
  from ex_alloc obtain final where f: "Build_alloc ex_env Map.empty = Inr final" ..
  from Build_alloc_external_wins [OF f] have
    1: "final 97 = Some ex_dump_account" and
    2: "\<forall>p\<in>set prefundedAccounts. \<exists>priv. getPrivKey ex_env p = Inr priv
           \<and> (([97 \<mapsto> ex_dump_account] :: address \<rightharpoonup> account) (ecrypto_PubkeyToAddress ex_env (PublicKey priv)) = None \<longrightarrow>
                final (ecrypto_PubkeyToAddress ex_env (PublicKey priv))
                  = Some \<lparr>Code = [], Storage = Map.empty, Balance = 16 ^ 22, Nonce = 1,
                           PrivateKey = []\<rparr>)"
    by (simp_all add: ex_decodeState)
  have "''0x59c6995e998f97a5a0044966f0945389dc9e86dae88c7a8412f4603b6b78690d'' \<in> set prefundedAccounts"
    by (simp add: prefundedAccounts_def)
  from 2 [rule_format, OF this] have "final 53 = Some \<lparr>Code = [], Storage = Map.empty, Balance = 16 ^ 22, Nonce = 1, PrivateKey = []\<rparr>"
    by (simp add: ex_getPrivKey ex_env_alloc_fields)
  with f 1 show ?thesis by blast
qed

subsection \<open>Format by extension\<close>

text \<open>
  Claim C8, amended. For a value that is no byte slice, string or deferred function and
  has neither \<^verbatim>\<open>MarshalSSZ\<close> nor \<^verbatim>\<open>Encode\<close>, \<^verbatim>\<open>WriteFile\<close> goes by the
  extension of the joined path. For \<^verbatim>\<open>.json\<close> it serialises with
  \<^verbatim>\<open>json.MarshalIndent\<close>, for \<^verbatim>\<open>.yaml\<close> with \<^verbatim>\<open>yaml.Marshal\<close>; an error of the
  serialiser is returned before any call into the file system; otherwise the parent
  directory is made and the file written, and the call succeeds when both do. Every other
  extension is the unsupported-extension error, with no call into the file system.
\<close>

theorem WriteFile_by_extension:
  "WriteFile e out dst0 (Object \<lparr>MarshalSSZ = None, Encode = None, Content = v\<rparr>) w =
     (let path = filepath_Join e [dst out, dst0]; ext = filepath_Ext path in
      if ext = ''.json'' then
        (case json_MarshalIndent e v of
           Inl err \<Rightarrow> (Some err, w)
         | Inr dataRaw \<Rightarrow> write_raw e path dataRaw w)
      else if ext = ''.yaml'' then
        (case yaml_Marshal e v of
           Inl err \<Rightarrow> (Some err, w)
         | Inr dataRaw \<Rightarrow> write_raw e path dataRaw w)
      else (Some (Errorf_s ''unsupported file extension'' ext), w))
   \<and> (os_result e w (MkdirAll (filepath_Dir e path) 493) = None
        \<and> os_result e (w @ [MkdirAll (filepath_Dir e path) 493]) (OsWriteFile path dataRaw 420) = None
      \<longrightarrow> write_raw e path dataRaw w
            = (None, w @ [MkdirAll (filepath_Dir e path) 493, OsWriteFile path dataRaw 420]))"
proof (intro conjI impI)
  show "WriteFile e out dst0 (Object \<lparr>MarshalSSZ = None, Encode = None, Content = v\<rparr>) w =
     (let path = filepath_Join e [dst out, dst0]; ext = filepath_Ext path in
      if ext = ''.json'' then
        (case json_MarshalIndent e v of
           Inl err \<Rightarrow> (Some err, w)
         | Inr dataRaw \<Rightarrow> write_raw e path dataRaw w)
      else if ext = ''.yaml'' then
        (case yaml_Marshal e v of
           Inl err \<Rightarrow> (Some err, w)
         | Inr dataRaw \<Rightarrow> write_raw e path dataRaw w)
      else (Some (Errorf_s ''unsupported file extension'' ext), w))"
    by (simp add: WriteFile_def Let_def)
next
  assume ok: "os_result e w (MkdirAll (filepath_Dir e path) 493) = None
        \<and> os_result e (w @ [MkdirAll (filepath_Dir e path) 493]) (OsWriteFile path dataRaw 420)
            = None"
  then have "os_call e (MkdirAll (filepath_Dir e path) 493) w
      = (None, w @ [MkdirAll (filepath_Dir e path) 493])"
    by (simp add: os_call_def)
  moreover from ok have "os_call e (OsWriteFile path dataRaw 420)
        (w @ [MkdirAll (filepath_Dir e path) 493])
      = (None, w @ [MkdirAll (filepath_Dir e path) 493, OsWriteFile path dataRaw 420])"
    by (simp add: os_call_def)
  ultimately show "write_raw e path dataRaw w
      = (None, w @ [MkdirAll (filepath_Dir e path) 493, OsWriteFile path dataRaw 420])"
    by (simp add: write_raw_def)
qed

lemma ex_Ext: "filepath_Ext ''out/foo.json'' = ''.json''" "filepath_Ext ''out/foo.txt'' = ''.txt''"
  "filepath_Ext ''out/foo.yaml'' = ''.yaml''"
  by (simp_all add: filepath_Ext_def)

text \<open>
  Claim C8, as stated, promises success for every such value on a \<^verbatim>\<open>.json\<close> path. A
  map that holds a func is such a value; \<^verbatim>\<open>json.MarshalIndent\<close> rejects it, and
  \<^verbatim>\<open>WriteFile\<close> returns that error (lines 457-459) and writes nothing.
\<close>

theorem WriteFile_json_counterexample:
  "WriteFile ex_env \<lparr>dst = ''out'', homeDir = []\<rparr> ''foo.json''
     (Object \<lparr>MarshalSSZ = None, Encode = None, Content = VMap [(''f'', VFunc)]\<rparr>) []
   = (Some (External ''json: unsupported type''), [])"
  by (simp add: WriteFile_def Let_def ex_env_fields ex_Join_def ex_Ext ex_Marshal_def)

theorem WriteFile_by_extension_witness:
  \<open>WriteFile ex_env \<lparr>dst = ''out'', homeDir = []\<rparr> ''foo.json''
     (Object \<lparr>MarshalSSZ = None, Encode = None, Content = VMap [(''a'', VString ''x'')]\<rparr>) []
   = (None, [MkdirAll ''out'' 493,
             OsWriteFile ''out/foo.json'' (''{'' @ [CHR 0x0A, CHR 0x09] @ ''"a": "x"'' @ [CHR 0x0A] @ ''}'') 420])
   \<and> WriteFile ex_env \<lparr>dst = ''out'', homeDir = []\<rparr> ''foo.yaml''
     (Object \<lparr>MarshalSSZ = None, Encode = None, Content = VMap [(''a'', VString ''x'')]\<rparr>) []
   = (None, [MkdirAll ''out'' 493, OsWriteFile ''out/foo.yaml'' (''a: x'' @ [CHR 0x0A]) 420])
   \<and> WriteFile ex_env \<lparr>dst = ''out'', homeDir = []\<rparr> ''foo.txt''
     (Object \<lparr>MarshalSSZ = None, Encode = None, Content = VMap [(''a'', VString ''x'')]\<rparr>) []
   = (Some (Errorf_s ''unsupported file extension'' ''.txt''), [])\<close>
  using WriteFile_by_extension [of ex_env "\<lparr>dst = ''out'', homeDir = []\<rparr>" "''foo.json''" "VMap [(''a'', VString ''x'')]" "[]"
      "''out/foo.json''" "(''{'' @ [CHR 0x0A, CHR 0x09] @ [CHR 0x22] @ ''a'' @ [CHR 0x22] @ '': '' @ [CHR 0x22] @ ''x'' @ [CHR 0x22] @ [CHR 0x0A] @ ''}'')"]
    WriteFile_by_extension [of ex_env "\<lparr>dst = ''out'', homeDir = []\<rparr>" "''foo.yaml''" "VMap [(''a'', VString ''x'')]" "[]"
      "''out/foo.yaml''" "''a: x'' @ [CHR 0x0A]"]
    WriteFile_by_extension [of ex_env "\<lparr>dst = ''out'', homeDir = []\<rparr>" "''foo.txt''" "VMap [(''a'', VString ''x'')]" "[]"]
  by (simp add: Let_def ex_env_fields ex_Join_def ex_Dir_def ex_os_def ex_Ext ex_Marshal_def ex_yaml_Marshal_def
      quoted_def bracket_def newline_def)

subsection \<open>The validator keystore encoder\<close>

lemma file_writes_append: "file_writes (w @ v) = file_writes w @ file_writes v"
  by (induction w rule: file_writes.induct) simp_all

lemma write_raw_writes:
  "write_raw e path dataRaw w = (None, w') \<Longrightarrow> file_writes w' = file_writes w @ [(path, dataRaw)]"
  by (auto simp: write_raw_def os_call_def file_writes_append split: option.splits)

lemma WriteFile_Bytes_writes:
  "WriteFile e out dst0 (Bytes raw) w = (None, w') \<Longrightarrow>
     file_writes w' = file_writes w @ [(filepath_Join e [dst out, dst0], raw)]"
  by (simp add: WriteFile_def Let_def write_raw_writes)

lemma WriteFile_Text_writes:
  "WriteFile e out dst0 (Text raw) w = (None, w') \<Longrightarrow>
     file_writes w' = file_writes w @ [(filepath_Join e [dst out, dst0], raw)]"
  by (simp add: WriteFile_def Let_def write_raw_writes)

lemma keystore_batch_writes:
  assumes "WriteBatch e out (keystore_batch sf pubKeyHex valJSON) w = (None, w')"
  shows "file_writes w' = file_writes w @
     (if sf then rev else (\<lambda>x. x))
       [(filepath_Join e [dst out, ''validators/'' @ pubKeyHex @ ''/voting-keystore.json''], valJSON),
        (filepath_Join e [dst out, ''secrets/'' @ pubKeyHex], secret)]"
proof (cases sf)
  case True
  with assms obtain w1 where
    1: "WriteFile e out (''secrets/'' @ pubKeyHex) (Text secret) w = (None, w1)" and
    2: "WriteFile e out (''validators/'' @ pubKeyHex @ ''/voting-keystore.json'') (Bytes valJSON) w1 = (None, w')"
    by (auto simp: keystore_batch_def Let_def split: prod.splits option.splits)
  from WriteFile_Text_writes [OF 1] WriteFile_Bytes_writes [OF 2] True show ?thesis by simp
next
  case False
  with assms obtain w1 where
    1: "WriteFile e out (''validators/'' @ pubKeyHex @ ''/voting-keystore.json'') (Bytes valJSON) w = (None, w1)" and
    2: "WriteFile e out (''secrets/'' @ pubKeyHex) (Text secret) w1 = (None, w')"
    by (auto simp: keystore_batch_def Let_def split: prod.splits option.splits)
  from WriteFile_Bytes_writes [OF 1] WriteFile_Text_writes [OF 2] False show ?thesis by simp
qed

lemma Encode_writes:
  "lighthouseKeystore_Encode e keys i out w = (None, w') \<Longrightarrow>
     file_writes w' = file_writes w @
       concat (map (\<lambda>(j, key). (if range_secrets_first e j then rev else (\<lambda>x. x)) (keystore_files e out j key))
                 (zip [i..<i + length keys] keys))
     \<and> (\<forall>j<length keys. \<exists>valJSON. keystore_document e (i + j) (keys ! j) = Inr valJSON)"
proof (induction keys arbitrary: i w)
  case Nil
  then show ?case by simp
next
  case (Cons key keys)
  from Cons.prems obtain cryptoFields valJSON w1 where
    c: "keystorev4_Encrypt e i (Marshal key) secret = Inr cryptoFields" and
    v: "json_MarshalIndent e (VMap (keystore_item cryptoFields
                     (case uuid_GenerateUUID e i of Inl _ \<Rightarrow> [] | Inr s \<Rightarrow> s)
                     (''0x'' @ hex_EncodeToString e (PublicKey_Marshal key)))) = Inr valJSON" and
    b: "WriteBatch e out (keystore_batch (range_secrets_first e i)
            (''0x'' @ hex_EncodeToString e (PublicKey_Marshal key)) valJSON) w = (None, w1)" and
    r: "lighthouseKeystore_Encode e keys (Suc i) out w1 = (None, w')"
    by (auto simp: Let_def split: sum.splits prod.splits option.splits)
  have doc: "keystore_document e i key = Inr valJSON"
    using c v by (simp add: keystore_document_def)
  have files: "file_writes w1 = file_writes w @
      (if range_secrets_first e i then rev else (\<lambda>x. x)) (keystore_files e out i key)"
    using keystore_batch_writes [OF b] by (simp add: keystore_files_def doc)
  note IH = Cons.IH [OF r]
  have "[i..<i + length (key # keys)] = i # [Suc i..<i + length (key # keys)]"
    by (rule upt_conv_Cons) simp
  then have upt: "[i..<i + length (key # keys)] = i # [Suc i..<Suc i + length keys]"
    by (simp del: upt_Suc)
  have A: "file_writes w' = file_writes w @
       concat (map (\<lambda>(j, key). (if range_secrets_first e j then rev else (\<lambda>x. x)) (keystore_files e out j key))
                 (zip [i..<i + length (key # keys)] (key # keys)))"
    unfolding upt using IH files by simp
  have B: "\<forall>j<length (key # keys). \<exists>valJSON. keystore_document e (i + j) ((key # keys) ! j) = Inr valJSON"
  proof (intro allI impI)
    fix j assume "j < length (key # keys)"
    then show "\<exists>valJSON. keystore_document e (i + j) ((key # keys) ! j) = Inr valJSON"
      using doc IH by (cases j) auto
  qed
  from A B show ?case by blast
qed


text \<open>
  Claim C5, amended. When \<^verbatim>\<open>Encode\<close> succeeds, the files it has written are, key
  after key, exactly two: \<^verbatim>\<open>validators/0x<pubkey>/voting-keystore.json\<close> with the
  keystore document and \<^verbatim>\<open>secrets/0x<pubkey>\<close> with the password \<^verbatim>\<open>secret\<close>
  (in the order the map iteration takes). The document is the indented JSON of the map
  with the fields \<^verbatim>\<open>crypto\<close> (what the encryption returned), \<^verbatim>\<open>uuid\<close> (the
  generated identifier), \<^verbatim>\<open>pubkey\<close> (the hexadecimal public key, no \<^verbatim>\<open>0x\<close>),
  \<^verbatim>\<open>version\<close> 4 and \<^verbatim>\<open>description\<close> empty.
\<close>

theorem lighthouseKeystore_Encode_files:
  assumes "lighthouseKeystore_Encode e keys i out w = (None, w')"
  shows "file_writes w' = file_writes w @
       concat (map (\<lambda>(j, key). (if range_secrets_first e j then rev else (\<lambda>x. x))
                                 (keystore_files e out j key))
                 (zip [i..<i + length keys] keys))
     \<and> (\<forall>j<length keys. \<exists>cryptoFields valJSON.
          keystorev4_Encrypt e (i + j) (Marshal (keys ! j)) secret = Inr cryptoFields
          \<and> json_MarshalIndent e (VMap
               [(''crypto'', VMap cryptoFields),
                (''uuid'', VString (case uuid_GenerateUUID e (i + j) of Inl _ \<Rightarrow> [] | Inr s \<Rightarrow> s)),
                (''pubkey'', VString (hex_EncodeToString e (PublicKey_Marshal (keys ! j)))),
                (''version'', VInt 4),
                (''description'', VString [])]) = Inr valJSON
          \<and> keystore_files e out (i + j) (keys ! j) =
               [(filepath_Join e [dst out, ''validators/0x''
                    @ hex_EncodeToString e (PublicKey_Marshal (keys ! j))
                    @ ''/voting-keystore.json''], valJSON),
                (filepath_Join e [dst out, ''secrets/0x''
                    @ hex_EncodeToString e (PublicKey_Marshal (keys ! j))], ''secret'')])"
proof -
  note E = Encode_writes [OF assms]
  have "\<exists>cryptoFields valJSON.
          keystorev4_Encrypt e (i + j) (Marshal (keys ! j)) secret = Inr cryptoFields
          \<and> json_MarshalIndent e (VMap
               [(''crypto'', VMap cryptoFields),
                (''uuid'', VString (case uuid_GenerateUUID e (i + j) of Inl _ \<Rightarrow> [] | Inr s \<Rightarrow> s)),
                (''pubkey'', VString (hex_EncodeToString e (PublicKey_Marshal (keys ! j)))),
                (''version'', VInt 4),
                (''description'', VString [])]) = Inr valJSON
          \<and> keystore_files e out (i + j) (keys ! j) =
               [(filepath_Join e [dst out, ''validators/0x''
                    @ hex_EncodeToString e (PublicKey_Marshal (keys ! j))
                    @ ''/voting-keystore.json''], valJSON),
                (filepath_Join e [dst out, ''secrets/0x''
                    @ hex_EncodeToString e (PublicKey_Marshal (keys ! j))], ''secret'')]"
    if "j < length keys" for j
  proof -
    from E that obtain valJSON where d: "keystore_document e (i + j) (keys ! j) = Inr valJSON"
      by blast
    then show ?thesis
      by (auto simp: keystore_document_def keystore_files_def keystore_item_def secret_def
          split: sum.splits)
  qed
  with E show ?thesis by blast
qed

text \<open>
  Claim C5, as stated, names the identifier field \<^verbatim>\<open>id\<close>. The map of lines 495-501
  has no such key; the identifier is under \<^verbatim>\<open>uuid\<close>.
\<close>

theorem keystore_item_has_no_id:
  "map_of (keystore_item [] ''3b9c'' ''0xa1'') ''id'' = None
   \<and> map_of (keystore_item [] ''3b9c'' ''0xa1'') ''uuid'' = Some (VString ''3b9c'')"
  by (simp add: keystore_item_def)

lemma ex_env_keystore_fields:
  "hex_EncodeToString ex_env = ex_hex"
  "keystorev4_Encrypt ex_env = (\<lambda>i key password. Inr [(''cipher'', VString (ex_hex key))])"
  "uuid_GenerateUUID ex_env = (\<lambda>i. Inr (''uuid-'' @ dec_nat i))"
  "range_secrets_first ex_env = (\<lambda>i. odd i)"
  by (simp_all add: ex_env_def)

lemma ex_Encode:
  \<open>lighthouseKeystore_Encode ex_env [\<lparr>Marshal = ''s'', PublicKey_Marshal = ''p''\<rparr>] 0
     \<lparr>dst = ''out'', homeDir = []\<rparr> []
   = (None,
      [MkdirAll ''out/validators/0x70'' 493,
       OsWriteFile ''out/validators/0x70/voting-keystore.json''
         (''{'' @ [CHR 0x0A, CHR 0x09] @ ''"crypto": {''
            @ [CHR 0x0A, CHR 0x09, CHR 0x09] @ ''"cipher": "73"''
            @ [CHR 0x0A, CHR 0x09] @ ''},''
            @ [CHR 0x0A, CHR 0x09] @ ''"description": "",''
            @ [CHR 0x0A, CHR 0x09] @ ''"pubkey": "70",''
            @ [CHR 0x0A, CHR 0x09] @ ''"uuid": "uuid-0",''
            @ [CHR 0x0A, CHR 0x09] @ ''"version": 4''
            @ [CHR 0x0A] @ ''}'') 420,
       MkdirAll ''out/secrets'' 493,
       OsWriteFile ''out/secrets/0x70'' ''secret'' 420])\<close>
  by code_simp


theorem lighthouseKeystore_Encode_files_witness:
  \<open>lighthouseKeystore_Encode ex_env [\<lparr>Marshal = ''s'', PublicKey_Marshal = ''p''\<rparr>] 0
     \<lparr>dst = ''out'', homeDir = []\<rparr> []
   = (None,
      [MkdirAll ''out/validators/0x70'' 493,
       OsWriteFile ''out/validators/0x70/voting-keystore.json''
         (''{'' @ [CHR 0x0A, CHR 0x09] @ ''"crypto": {''
            @ [CHR 0x0A, CHR 0x09, CHR 0x09] @ ''"cipher": "73"''
            @ [CHR 0x0A, CHR 0x09] @ ''},''
            @ [CHR 0x0A, CHR 0x09] @ ''"description": "",''
            @ [CHR 0x0A, CHR 0x09] @ ''"pubkey": "70",''
            @ [CHR 0x0A, CHR 0x09] @ ''"uuid": "uuid-0",''
            @ [CHR 0x0A, CHR 0x09] @ ''"version": 4''
            @ [CHR 0x0A] @ ''}'') 420,
       MkdirAll ''out/secrets'' 493,
       OsWriteFile ''out/secrets/0x70'' ''secret'' 420])
   \<and> keystore_files ex_env \<lparr>dst = ''out'', homeDir = []\<rparr> 0
        \<lparr>Marshal = ''s'', PublicKey_Marshal = ''p''\<rparr>
      = [(''out/validators/0x70/voting-keystore.json'',
          ''{'' @ [CHR 0x0A, CHR 0x09] @ ''"crypto": {''
            @ [CHR 0x0A, CHR 0x09, CHR 0x09] @ ''"cipher": "73"''
            @ [CHR 0x0A, CHR 0x09] @ ''},''
            @ [CHR 0x0A, CHR 0x09] @ ''"description": "",''
            @ [CHR 0x0A, CHR 0x09] @ ''"pubkey": "70",''
            @ [CHR 0x0A, CHR 0x09] @ ''"uuid": "uuid-0",''
            @ [CHR 0x0A, CHR 0x09] @ ''"version": 4''
            @ [CHR 0x0A] @ ''}''),
         (''out/secrets/0x70'', ''secret'')]\<close>
  using ex_Encode lighthouseKeystore_Encode_files [OF ex_Encode]
  by (simp add: ex_env_keystore_fields)

subsection \<open>overrideJSON\<close>

lemma ex_Unmarshal_values:
  \<open>ex_Unmarshal ''{}'' = Inr (Some [])\<close>
  \<open>ex_Unmarshal ''null'' = Inr None\<close>
  \<open>ex_Unmarshal ''[]'' = Inl (External ''json: cannot unmarshal into Go value of type map[string]interface {}'')\<close>
  \<open>ex_Unmarshal ''{"a":true}'' = Inr (Some [(''a'', VBool True)])\<close>
  \<open>ex_Unmarshal ''{"m":1e400}''
     = Inl (External ''json: cannot unmarshal number 1e400 into Go value of type float64'')\<close>
  by (simp_all add: ex_Unmarshal_def)

text \<open>
  Claim C7, amended. What decides is the answer of \<^verbatim>\<open>json.Unmarshal\<close>, not the
  syntax of the original at top level. For an original that \<^verbatim>\<open>json.Unmarshal\<close> does
  not decode to a nil map (any original but the literal \<^verbatim>\<open>null\<close>),
  \<^verbatim>\<open>overrideJSON\<close> returns an error if and only if \<^verbatim>\<open>json.Unmarshal\<close> returns one
  for the original or \<^verbatim>\<open>json.Marshal\<close> returns one for the merged document, and it
  does not panic. The error of \<^verbatim>\<open>json.Unmarshal\<close> is returned wrapped; when the
  original decodes to a map, the result is the serialisation of the merged document, or
  the wrapped error of \<^verbatim>\<open>json.Marshal\<close>.
\<close>

theorem overrideJSON_errors:
  "(json_Unmarshal e jsonData \<noteq> Inr None \<longrightarrow>
      ((\<exists>err. overrideJSON e jsonData overrides = Return (Inl err)) \<longleftrightarrow>
         (\<exists>err. json_Unmarshal e jsonData = Inl err)
         \<or> (\<exists>original err. json_Unmarshal e jsonData = Inr (Some original)
               \<and> json_Marshal e (VMap (mergeMap original overrides)) = Inl err))
      \<and> (\<forall>msg. overrideJSON e jsonData overrides \<noteq> Panic msg))
   \<and> (\<forall>err. json_Unmarshal e jsonData = Inl err \<longrightarrow>
      overrideJSON e jsonData overrides
        = Return (Inl (Errorf_w ''failed to unmarshal original JSON'' err)))
   \<and> (\<forall>original. json_Unmarshal e jsonData = Inr (Some original) \<longrightarrow>
        overrideJSON e jsonData overrides =
          (case json_Marshal e (VMap (mergeMap original overrides)) of
             Inl err \<Rightarrow> Return (Inl (Errorf_w ''failed to marshal modified JSON'' err))
           | Inr result \<Rightarrow> Return (Inr result)))"
proof -
  have rejected: "overrideJSON e jsonData overrides
        = Return (Inl (Errorf_w ''failed to unmarshal original JSON'' err))"
    if "json_Unmarshal e jsonData = Inl err" for err
    using that by (simp add: overrideJSON_def)
  have decoded: "overrideJSON e jsonData overrides =
          (case json_Marshal e (VMap (mergeMap original overrides)) of
             Inl err \<Rightarrow> Return (Inl (Errorf_w ''failed to marshal modified JSON'' err))
           | Inr result \<Rightarrow> Return (Inr result))"
    if dec: "json_Unmarshal e jsonData = Inr (Some original)" for original
  proof -
    have merged: "mergeMap_nilable (Some original) overrides
        = Return (Some (mergeMap original overrides))"
      by (simp add: mergeMap_nilable_def)
    show ?thesis by (simp add: overrideJSON_def dec merged)
  qed
  have iff: "((\<exists>err. overrideJSON e jsonData overrides = Return (Inl err)) \<longleftrightarrow>
         (\<exists>err. json_Unmarshal e jsonData = Inl err)
         \<or> (\<exists>original err. json_Unmarshal e jsonData = Inr (Some original)
               \<and> json_Marshal e (VMap (mergeMap original overrides)) = Inl err))
      \<and> (\<forall>msg. overrideJSON e jsonData overrides \<noteq> Panic msg)"
    if notnil: "json_Unmarshal e jsonData \<noteq> Inr None"
  proof (cases "json_Unmarshal e jsonData")
    case (Inl err)
    with rejected [OF Inl] show ?thesis by simp
  next
    case (Inr original')
    with notnil obtain original where dec: "json_Unmarshal e jsonData = Inr (Some original)"
      by (cases original') auto
    show ?thesis
    proof (cases "json_Marshal e (VMap (mergeMap original overrides))")
      case (Inl err)
      with decoded [OF dec] dec show ?thesis by simp
    next
      case (Inr result)
      with decoded [OF dec] dec show ?thesis by simp
    qed
  qed
  from rejected decoded iff show ?thesis by blast
qed

theorem overrideJSON_errors_witness:
  \<open>json_Unmarshal ex_env ''[]'' = Inl (External ''json: cannot unmarshal into Go value of type map[string]interface {}'')
   \<and> overrideJSON ex_env ''[]'' [(''b'', VString ''x'')]
       = Return (Inl (Errorf_w ''failed to unmarshal original JSON''
           (External ''json: cannot unmarshal into Go value of type map[string]interface {}'')))
   \<and> json_Unmarshal ex_env ''{"a":true}'' = Inr (Some [(''a'', VBool True)])
   \<and> overrideJSON ex_env ''{"a":true}'' [(''b'', VString ''x''), (''a'', VBool False)]
       = Return (Inr ''{"a":false,"b":"x"}'')
   \<and> \<not> (\<exists>err. overrideJSON ex_env ''{"a":true}'' [(''b'', VString ''x''), (''a'', VBool False)]
              = Return (Inl err))\<close>
  using overrideJSON_errors [of ex_env "''[]''" "[(''b'', VString ''x'')]"]
    overrideJSON_errors [of ex_env \<open>''{"a":true}''\<close> "[(''b'', VString ''x''), (''a'', VBool False)]"]
  by (simp add: ex_env_fields ex_Unmarshal_values ex_Marshal_def quoted_def bracket_def newline_def)

text \<open>
  Claim C7, as stated, ties the error to the original being no JSON object at top level.
  \<^verbatim>\<open>{"m":1e400}\<close> is a JSON object at top level; its number is outside float64,
  \<^verbatim>\<open>json.Unmarshal\<close> returns an error for it and \<^verbatim>\<open>overrideJSON\<close> returns that error
  (lines 294-296). The literal \<^verbatim>\<open>null\<close> is no JSON object; \<^verbatim>\<open>json.Unmarshal\<close>
  accepts it and leaves the map nil: with no overrides \<^verbatim>\<open>overrideJSON\<close> returns
  \<^verbatim>\<open>null\<close> and no error, and with an override the assignment to the nil map
  (line 322) panics.
\<close>

theorem overrideJSON_object_counterexample:
  \<open>overrideJSON ex_env ''{"m":1e400}'' [(''m'', VBool True)]
     = Return (Inl (Errorf_w ''failed to unmarshal original JSON''
         (External ''json: cannot unmarshal number 1e400 into Go value of type float64'')))
   \<and> json_Unmarshal ex_env ''null'' = Inr None
   \<and> overrideJSON ex_env ''null'' [] = Return (Inr ''null'')
   \<and> overrideJSON ex_env ''null'' [(''a'', VBool True)] = Panic ''assignment to entry in nil map''\<close>
  by (simp add: overrideJSON_def mergeMap_nilable_def ex_env_fields ex_Unmarshal_values ex_Marshal_def)

text \<open>
  Claim C9, as stated, is about every document that is a JSON object at top level. For
  the object \<^verbatim>\<open>{"m":1e400}\<close> and no overrides, \<^verbatim>\<open>overrideJSON\<close> returns the error
  of \<^verbatim>\<open>json.Unmarshal\<close> and no document.
\<close>

theorem overrideJSON_no_overrides_counterexample:
  \<open>json_Unmarshal ex_env ''{"m":1e400}''
     = Inl (External ''json: cannot unmarshal number 1e400 into Go value of type float64'')
   \<and> overrideJSON ex_env ''{"m":1e400}'' []
     = Return (Inl (Errorf_w ''failed to unmarshal original JSON''
         (External ''json: cannot unmarshal number 1e400 into Go value of type float64'')))\<close>
  by (simp add: overrideJSON_def ex_env_fields ex_Unmarshal_values)

text \<open>
  Claim C9, amended. For every document that \<^verbatim>\<open>json.Unmarshal\<close> decodes to a map
  \<open>m\<close>, the merge with no overrides leaves \<open>m\<close> as it is and \<^verbatim>\<open>overrideJSON\<close> returns
  what \<^verbatim>\<open>json.Marshal\<close> makes of \<open>m\<close>: the serialisation of exactly the mapping that
  was decoded. Hence, in an environment where encoding/json decodes its own encoding of a
  decoded document back to that document, the returned document parses to the same
  mapping as the original.
\<close>

theorem overrideJSON_no_overrides:
  assumes "json_Unmarshal e doc = Inr (Some m)"
  shows "mergeMap m [] = m
     \<and> overrideJSON e doc [] =
         (case json_Marshal e (VMap m) of
            Inl err \<Rightarrow> Return (Inl (Errorf_w ''failed to marshal modified JSON'' err))
          | Inr result \<Rightarrow> Return (Inr result))
     \<and> (json_round_trip e \<longrightarrow>
          (\<forall>result. overrideJSON e doc [] = Return (Inr result)
             \<longrightarrow> json_Unmarshal e result = json_Unmarshal e doc))"
proof (intro conjI impI allI)
  show "mergeMap m [] = m" by simp
next
  show returned: "overrideJSON e doc [] =
         (case json_Marshal e (VMap m) of
            Inl err \<Rightarrow> Return (Inl (Errorf_w ''failed to marshal modified JSON'' err))
          | Inr result \<Rightarrow> Return (Inr result))"
    using assms by (simp add: overrideJSON_def mergeMap_nilable_def)
  fix result
  assume law: "json_round_trip e" and ok: "overrideJSON e doc [] = Return (Inr result)"
  from ok returned have enc: "json_Marshal e (VMap m) = Inr result"
    by (cases "json_Marshal e (VMap m)") simp_all
  from law assms enc have "json_Unmarshal e result = Inr (Some m)"
    unfolding json_round_trip_def by blast
  with assms show "json_Unmarshal e result = json_Unmarshal e doc" by simp
qed

lemma ex_json_round_trip: "json_round_trip ex_env"
  unfolding json_round_trip_def
proof (intro allI impI, elim conjE)
  fix doc m result
  assume dec: "json_Unmarshal ex_env doc = Inr (Some m)"
    and enc: "json_Marshal ex_env (VMap m) = Inr result"
  from dec consider
      (empty) "doc = ''{}''" "m = []"
    | (a) "doc = ''{\"a\":true}''" "m = [(''a'', VBool True)]"
    | (genesis) "doc = ''{\"timestamp\":\"0x0\"}''" "m = [(''timestamp'', VString ''0x0'')]"
    | (rollup) "doc = ''{\"genesis\":{\"l2\":{\"hash\":\"0x00\"}}}''"
        "m = [(''genesis'', VMap [(''l2'', VMap [(''hash'', VString ''0x00'')])])]"
    by (auto simp: ex_env_fields ex_Unmarshal_def split: if_splits)
  then have "result = doc"
    using enc
    by cases (auto simp: ex_env_fields ex_Marshal_def quoted_def bracket_def newline_def)
  with dec show "json_Unmarshal ex_env result = Inr (Some m)" by simp
qed

theorem overrideJSON_no_overrides_witness:
  \<open>json_Unmarshal ex_env ''{"a":true}'' = Inr (Some [(''a'', VBool True)])
   \<and> json_round_trip ex_env
   \<and> overrideJSON ex_env ''{"a":true}'' [] = Return (Inr ''{"a":true}'')
   \<and> json_Unmarshal ex_env ''{"a":true}'' = json_Unmarshal ex_env ''{"a":true}''\<close>
proof -
  have 1: \<open>json_Unmarshal ex_env ''{"a":true}'' = Inr (Some [(''a'', VBool True)])\<close>
    by (simp add: ex_env_fields ex_Unmarshal_values)
  have 2: \<open>json_Marshal ex_env (VMap [(''a'', VBool True)]) = Inr ''{"a":true}''\<close>
    by (simp add: ex_env_fields ex_Marshal_def quoted_def bracket_def newline_def)
  from overrideJSON_no_overrides [OF 1] 1 2 ex_json_round_trip show ?thesis by simp
qed

subsection \<open>The L2 genesis and the rollup configuration\<close>

lemma rollup_genesis:
  "\<exists>g. map_of (mergeMap r0 (rollup_overrides ts l1 h)) ''genesis'' = Some (VMap g)
     \<and> map_of g ''l2_time'' = Some (VUint64 ts)
     \<and> (\<exists>l2. map_of g ''l2'' = Some (VMap l2) \<and> map_of l2 ''hash'' = Some (VString h))"
proof -
  let ?l2 = "[(''hash'', VString h), (''number'', VInt 0)]"
  let ?g = "[(''l2_time'', VUint64 ts),
             (''l1'', VMap [(''hash'', VString l1), (''number'', VInt 0)]),
             (''l2'', VMap ?l2)]"
  have inner: "map_of (mergeMap d ?l2) ''hash'' = Some (VString h)" for d
    by (simp add: mergeMap_lookup merge_entry_def del: mergeMap.simps split: option.splits val.splits)
  have time: "map_of (mergeMap d ?g) ''l2_time'' = Some (VUint64 ts)" for d
    by (simp add: mergeMap_lookup merge_entry_def del: mergeMap.simps split: option.splits val.splits)
  have l2: "\<exists>l2. map_of (mergeMap d ?g) ''l2'' = Some (VMap l2) \<and> map_of l2 ''hash'' = Some (VString h)" for d
  proof (cases "\<exists>dl. map_of d ''l2'' = Some (VMap dl)")
    case True
    then obtain dl where "map_of d ''l2'' = Some (VMap dl)" ..
    then have "map_of (mergeMap d ?g) ''l2'' = Some (VMap (mergeMap dl ?l2))"
      by (simp add: mergeMap_lookup merge_entry_def del: mergeMap.simps)
    with inner show ?thesis by blast
  next
    case False
    then have "map_of (mergeMap d ?g) ''l2'' = Some (VMap ?l2)"
      by (simp add: mergeMap_lookup merge_entry_def del: mergeMap.simps split: option.splits val.splits)
    then show ?thesis by simp
  qed
  show ?thesis
  proof (cases "\<exists>dg. map_of r0 ''genesis'' = Some (VMap dg)")
    case True
    then obtain dg where "map_of r0 ''genesis'' = Some (VMap dg)" ..
    then have "map_of (mergeMap r0 (rollup_overrides ts l1 h)) ''genesis'' = Some (VMap (mergeMap dg ?g))"
      by (simp add: rollup_overrides_def mergeMap_lookup merge_entry_def del: mergeMap.simps)
    with time l2 show ?thesis by blast
  next
    case False
    then have "map_of (mergeMap r0 (rollup_overrides ts l1 h)) ''genesis'' = Some (VMap ?g)"
      by (simp add: rollup_overrides_def mergeMap_lookup merge_entry_def del: mergeMap.simps
          split: option.splits val.splits)
    then show ?thesis by simp
  qed
qed

lemma rollup_lookup:
  "lookup_path (VMap (mergeMap r0 (rollup_overrides ts l1 h))) [''genesis'', ''l2_time'']
     = Some (VUint64 ts)"
  "lookup_path (VMap (mergeMap r0 (rollup_overrides ts l1 h))) [''genesis'', ''l2'', ''hash'']
     = Some (VString h)"
  using rollup_genesis [of r0 ts l1 h] by auto

lemma overrideJSON_Return_Inr:
  assumes "overrideJSON e jsonData overrides = Return (Inr result)" and "overrides \<noteq> []"
  shows "\<exists>original. json_Unmarshal e jsonData = Inr (Some original)
     \<and> json_Marshal e (VMap (mergeMap original overrides)) = Inr result"
  using assms
  by (auto simp: overrideJSON_def mergeMap_nilable_def simp del: mergeMap.simps
      split: sum.splits option.splits if_splits)

lemma hex_digit_inj:
  "i < 16 \<Longrightarrow> j < 16 \<Longrightarrow> ''0123456789abcdef'' ! i = ''0123456789abcdef'' ! j \<Longrightarrow> i = j"
  by (simp add: nth_eq_iff_index_eq)

lemma hex_nat_nonempty: "hex_nat n \<noteq> []"
  by (subst hex_nat.simps) simp

lemma hex_nat_inj: "hex_nat n = hex_nat m \<Longrightarrow> n = m"
proof (induction n arbitrary: m rule: less_induct)
  case (less n)
  show ?case
  proof (cases "n < 16")
    case n: True
    show ?thesis
    proof (cases "m < 16")
      case True
      with n less.prems have "''0123456789abcdef'' ! n = ''0123456789abcdef'' ! m"
        by (simp add: hex_nat.simps [of n] hex_nat.simps [of m])
      with n True show ?thesis by (rule hex_digit_inj)
    next
      case False
      with n less.prems have "length (hex_nat (m div 16)) = 0"
        by (simp add: hex_nat.simps [of n] hex_nat.simps [of m] append_eq_Cons_conv)
      with hex_nat_nonempty show ?thesis by simp
    qed
  next
    case n: False
    show ?thesis
    proof (cases "m < 16")
      case True
      with n less.prems have "length (hex_nat (n div 16)) = 0"
        by (simp add: hex_nat.simps [of n] hex_nat.simps [of m] Cons_eq_append_conv)
      with hex_nat_nonempty show ?thesis by simp
    next
      case False
      with n less.prems have
        hi: "hex_nat (n div 16) = hex_nat (m div 16)" and
        lo: "''0123456789abcdef'' ! (n mod 16) = ''0123456789abcdef'' ! (m mod 16)"
        by (simp_all add: hex_nat.simps [of n] hex_nat.simps [of m])
      from n have "n div 16 < n" by simp
      from less.IH [OF this hi] have d: "n div 16 = m div 16" .
      have "n mod 16 = m mod 16" by (rule hex_digit_inj [OF _ _ lo]) simp_all
      with d show ?thesis by (metis div_mult_mod_eq)
    qed
  qed
qed

text \<open>
  Claim C1. When the L2 block of \<^verbatim>\<open>Build\<close> succeeds: the L2 timestamp is
  \<open>genesisTime + 2\<close> (uint64 arithmetic); the L2 genesis template was patched to hold
  that timestamp in hexadecimal, serialised, and decoded again into the genesis object
  whose block hash is taken; the document serialised into \<^verbatim>\<open>rollup.json\<close> has
  \<^verbatim>\<open>genesis.l2_time\<close> equal to the timestamp and \<^verbatim>\<open>genesis.l2.hash\<close> equal to
  that recomputed hash, whatever the rollup template held there. Where decoding into
  \<^verbatim>\<open>core.Genesis\<close> reads the timestamp field, the timestamp of the hashed object is
  \<open>genesisTime + 2\<close>; where moreover the block hash is sensitive to the timestamp, the
  hash in \<^verbatim>\<open>rollup.json\<close> is not the hash of the unpatched template whenever the
  template's timestamp differs from \<open>genesisTime + 2\<close>.
\<close>

theorem Build_l2_rollup:
  assumes "Build_l2 e genesisTime l1Hash out w = Return (None, w')"
  shows "\<exists>g0 newOpGenesis opGenesisObj r0 rollup newOpRollup.
      json_Unmarshal e (opGenesis e) = Inr (Some g0)
    \<and> map_of (mergeMap g0 [(''timestamp'', VString (hexutil_Uint64_String e (genesisTime + 2)))])
          ''timestamp'' = Some (VString (hexutil_Uint64_String e (genesisTime + 2)))
    \<and> json_Marshal e
          (VMap (mergeMap g0 [(''timestamp'', VString (hexutil_Uint64_String e (genesisTime + 2)))]))
        = Inr newOpGenesis
    \<and> json_Unmarshal_Genesis e newOpGenesis = Inr opGenesisObj
    \<and> json_Unmarshal e (opRollupConfig e) = Inr (Some r0)
    \<and> rollup = VMap (mergeMap r0
          (rollup_overrides (genesisTime + 2) l1Hash (Genesis_ToBlock_Hash_String e opGenesisObj)))
    \<and> lookup_path rollup [''genesis'', ''l2_time''] = Some (VUint64 (genesisTime + 2))
    \<and> lookup_path rollup [''genesis'', ''l2'', ''hash'']
        = Some (VString (Genesis_ToBlock_Hash_String e opGenesisObj))
    \<and> (Genesis_reads_timestamp e \<longrightarrow> Timestamp opGenesisObj = genesisTime + 2)
    \<and> (Genesis_reads_timestamp e \<and> hash_timestamp_sensitive e \<longrightarrow>
          (\<forall>template. json_Unmarshal_Genesis e (opGenesis e) = Inr template
              \<and> Timestamp template \<noteq> genesisTime + 2
            \<longrightarrow> lookup_path rollup [''genesis'', ''l2'', ''hash'']
                  \<noteq> Some (VString (Genesis_ToBlock_Hash_String e template))))
    \<and> json_Marshal e rollup = Inr newOpRollup
    \<and> file_writes w' = file_writes w @
          [(filepath_Join e [dst out, ''l2-genesis.json''], newOpGenesis),
           (filepath_Join e [dst out, ''rollup.json''], newOpRollup)]"
proof -
  let ?ts = "genesisTime + 2"
  let ?ov = "[(''timestamp'', VString (hexutil_Uint64_String e ?ts))]"
  from assms obtain newOpGenesis opGenesisObj newOpRollup w1 where
    a: "overrideJSON e (opGenesis e) ?ov = Return (Inr newOpGenesis)" and
    b: "json_Unmarshal_Genesis e newOpGenesis = Inr opGenesisObj" and
    c: "overrideJSON e (opRollupConfig e)
          (rollup_overrides ?ts l1Hash (Genesis_ToBlock_Hash_String e opGenesisObj))
        = Return (Inr newOpRollup)" and
    d: "WriteFile e out ''l2-genesis.json'' (Bytes newOpGenesis) w = (None, w1)" and
    f: "WriteFile e out ''rollup.json'' (Bytes newOpRollup) w1 = (None, w')"
    by (auto simp: Build_l2_def Let_def simp del: mergeMap.simps
        split: outcome.splits sum.splits prod.splits option.splits)
  from overrideJSON_Return_Inr [OF a] obtain g0 where
    g: "json_Unmarshal e (opGenesis e) = Inr (Some g0)"
       "json_Marshal e (VMap (mergeMap g0 ?ov)) = Inr newOpGenesis"
    by auto
  have "rollup_overrides ?ts l1Hash (Genesis_ToBlock_Hash_String e opGenesisObj) \<noteq> []"
    by (simp add: rollup_overrides_def)
  from overrideJSON_Return_Inr [OF c this] obtain r0 where
    r: "json_Unmarshal e (opRollupConfig e) = Inr (Some r0)"
       "json_Marshal e (VMap (mergeMap r0
          (rollup_overrides ?ts l1Hash (Genesis_ToBlock_Hash_String e opGenesisObj)))) = Inr newOpRollup"
    by auto
  have t: "map_of (mergeMap g0 ?ov) ''timestamp'' = Some (VString (hexutil_Uint64_String e ?ts))"
    by (simp add: mergeMap_lookup merge_entry_def del: mergeMap.simps split: option.splits val.splits)
  have wr: "file_writes w' = file_writes w @
          [(filepath_Join e [dst out, ''l2-genesis.json''], newOpGenesis),
           (filepath_Join e [dst out, ''rollup.json''], newOpRollup)]"
    using WriteFile_Bytes_writes [OF d] WriteFile_Bytes_writes [OF f] by simp
  let ?rollup = "VMap (mergeMap r0
          (rollup_overrides ?ts l1Hash (Genesis_ToBlock_Hash_String e opGenesisObj)))"
  note L = rollup_lookup [of r0 ?ts l1Hash "Genesis_ToBlock_Hash_String e opGenesisObj"]
  have T: "Timestamp opGenesisObj = ?ts" if "Genesis_reads_timestamp e"
    using that g(2) b t unfolding Genesis_reads_timestamp_def by blast
  have N: "Genesis_reads_timestamp e \<and> hash_timestamp_sensitive e \<longrightarrow>
          (\<forall>template. json_Unmarshal_Genesis e (opGenesis e) = Inr template
              \<and> Timestamp template \<noteq> ?ts
            \<longrightarrow> lookup_path ?rollup [''genesis'', ''l2'', ''hash'']
                  \<noteq> Some (VString (Genesis_ToBlock_Hash_String e template)))"
  proof (intro impI allI, elim conjE)
    fix template :: Genesis
    assume reads: "Genesis_reads_timestamp e" and sens: "hash_timestamp_sensitive e"
      and differ: "Timestamp template \<noteq> ?ts"
    from differ T [OF reads] have "Timestamp template \<noteq> Timestamp opGenesisObj" by simp
    with sens have "Genesis_ToBlock_Hash_String e template
        \<noteq> Genesis_ToBlock_Hash_String e opGenesisObj"
      unfolding hash_timestamp_sensitive_def by blast
    then show "lookup_path ?rollup [''genesis'', ''l2'', ''hash'']
        \<noteq> Some (VString (Genesis_ToBlock_Hash_String e template))"
      unfolding L by auto
  qed
  have T': "Genesis_reads_timestamp e \<longrightarrow> Timestamp opGenesisObj = ?ts"
    using T by blast
  show ?thesis
    apply (rule exI [of _ g0])
    apply (rule exI [of _ newOpGenesis])
    apply (rule exI [of _ opGenesisObj])
    apply (rule exI [of _ r0])
    apply (rule exI [of _ ?rollup])
    apply (rule exI [of _ newOpRollup])
    apply (intro conjI)
    apply (rule g(1), rule t, rule g(2), rule b, rule r(1), rule refl, rule L(1), rule L(2),
        rule T', rule N, rule r(2), rule wr)
    done
qed

lemma ex_l2_env_fields:
  "json_Unmarshal ex_l2_env = ex_Unmarshal"
  "json_Marshal ex_l2_env = ex_l2_Marshal"
  "json_Unmarshal_Genesis ex_l2_env = ex_Unmarshal_Genesis"
  "hexutil_Uint64_String ex_l2_env = (\<lambda>n. ''0x'' @ hex_nat (unat n))"
  "Genesis_ToBlock_Hash_String ex_l2_env = (\<lambda>g. ''0xhash'' @ hex_nat (unat (Timestamp g)))"
  "opGenesis ex_l2_env = ex_opGenesis"
  "opRollupConfig ex_l2_env = ex_opRollupConfig"
  by (simp_all add: ex_l2_env_def ex_env_def)

lemma ex_l2_Marshal_values:
  \<open>ex_Marshal None (VMap [(''timestamp'', VString ''0x2a'')]) = Inr ''{"timestamp":"0x2a"}''\<close>
  \<open>ex_Marshal None
      (VMap (mergeMap [(''genesis'', VMap [(''l2'', VMap [(''hash'', VString ''0x00'')])])]
                    (rollup_overrides 42 ''0xl1'' ''0xhash2a'')))
    = Inr (''{"chain_op_config":{"eip1559Denominator":50,"eip1559DenominatorCanyon":250,''
            @ ''"eip1559Elasticity":6},"genesis":{"l1":{"hash":"0xl1","number":0},''
            @ ''"l2":{"hash":"0xhash2a","number":0},"l2_time":42}}'')\<close>
  by code_simp+

lemma ex_hash_timestamp_sensitive: "hash_timestamp_sensitive ex_l2_env"
  by (auto simp: hash_timestamp_sensitive_def ex_l2_env_fields word_unat_eq_iff dest!: hex_nat_inj)

lemma hex_nat_42: "hex_nat 42 = ''2a''"
  by code_simp

lemma ex_Genesis_reads_timestamp: "Genesis_reads_timestamp ex_l2_env"
  unfolding Genesis_reads_timestamp_def
proof (intro allI impI, elim conjE)
  fix m bytes g t
  assume enc: "json_Marshal ex_l2_env (VMap m) = Inr bytes"
    and dec: "json_Unmarshal_Genesis ex_l2_env bytes = Inr g"
    and ts: "map_of m ''timestamp'' = Some (VString (hexutil_Uint64_String ex_l2_env t))"
  from enc consider
    (genesis) "m = [(''timestamp'', VString ''0x2a'')]"
      "bytes = ''{\"timestamp\":\"0x2a\"}''"
    | (rollup) "bytes = ''{\"chain_op_config\":{\"eip1559Denominator\":50,\"eip1559DenominatorCanyon\":250,''
            @ ''\"eip1559Elasticity\":6},\"genesis\":{\"l1\":{\"hash\":\"0xl1\",\"number\":0},''
            @ ''\"l2\":{\"hash\":\"0xhash2a\",\"number\":0},\"l2_time\":42}}''"
    by (auto simp: ex_l2_env_fields ex_l2_Marshal_def ex_l2_Marshal_values simp del: mergeMap.simps
        split: if_splits)
  then show "Timestamp g = t"
  proof cases
    case genesis
    with dec have g: "Timestamp g = 42"
      by (auto simp: ex_l2_env_fields ex_Unmarshal_Genesis_def)
    from ts genesis have "hex_nat (unat t) = hex_nat 42"
      by (simp add: ex_l2_env_fields hex_nat_42)
    then have "unat t = 42" by (rule hex_nat_inj)
    then have "t = 42" by (simp add: word_unat_eq_iff)
    with g show ?thesis by simp
  next
    case rollup
    with dec show ?thesis
      by (simp add: ex_l2_env_fields ex_Unmarshal_Genesis_def)
  qed
qed

lemma ex_Build_l2:
  \<open>Build_l2 ex_l2_env 40 ''0xl1'' \<lparr>dst = ''out'', homeDir = []\<rparr> []
   = Return (None,
      [MkdirAll ''out'' 493,
       OsWriteFile ''out/l2-genesis.json'' ''{"timestamp":"0x2a"}'' 420,
       MkdirAll ''out'' 493,
       OsWriteFile ''out/rollup.json''
         (''{"chain_op_config":{"eip1559Denominator":50,"eip1559DenominatorCanyon":250,''
            @ ''"eip1559Elasticity":6},"genesis":{"l1":{"hash":"0xl1","number":0},''
            @ ''"l2":{"hash":"0xhash2a","number":0},"l2_time":42}}'') 420])\<close>
  by code_simp

lemma ex_template_Genesis:
  "json_Unmarshal_Genesis ex_l2_env (opGenesis ex_l2_env) = Inr \<lparr>Timestamp = 0, Other = []\<rparr>"
  by (simp add: ex_l2_env_fields ex_opGenesis_def ex_Unmarshal_Genesis_def)

theorem Build_l2_rollup_witness:
  \<open>Build_l2 ex_l2_env 40 ''0xl1'' \<lparr>dst = ''out'', homeDir = []\<rparr> []
   = Return (None,
      [MkdirAll ''out'' 493,
       OsWriteFile ''out/l2-genesis.json'' ''{"timestamp":"0x2a"}'' 420,
       MkdirAll ''out'' 493,
       OsWriteFile ''out/rollup.json''
         (''{"chain_op_config":{"eip1559Denominator":50,"eip1559DenominatorCanyon":250,''
            @ ''"eip1559Elasticity":6},"genesis":{"l1":{"hash":"0xl1","number":0},''
            @ ''"l2":{"hash":"0xhash2a","number":0},"l2_time":42}}'') 420])
   \<and> Genesis_reads_timestamp ex_l2_env
   \<and> hash_timestamp_sensitive ex_l2_env
   \<and> json_Unmarshal_Genesis ex_l2_env (opGenesis ex_l2_env) = Inr \<lparr>Timestamp = 0, Other = []\<rparr>
   \<and> (\<exists>rollup opGenesisObj.
         lookup_path rollup [''genesis'', ''l2_time''] = Some (VUint64 42)
       \<and> lookup_path rollup [''genesis'', ''l2'', ''hash'']
           = Some (VString (Genesis_ToBlock_Hash_String ex_l2_env opGenesisObj))
       \<and> json_Unmarshal_Genesis ex_l2_env ''{"timestamp":"0x2a"}'' = Inr opGenesisObj
       \<and> Timestamp opGenesisObj = 42
       \<and> lookup_path rollup [''genesis'', ''l2'', ''hash'']
           \<noteq> Some (VString (Genesis_ToBlock_Hash_String ex_l2_env \<lparr>Timestamp = 0, Other = []\<rparr>))
       \<and> json_Marshal ex_l2_env rollup
           = Inr (''{"chain_op_config":{"eip1559Denominator":50,"eip1559DenominatorCanyon":250,''
            @ ''"eip1559Elasticity":6},"genesis":{"l1":{"hash":"0xl1","number":0},''
            @ ''"l2":{"hash":"0xhash2a","number":0},"l2_time":42}}''))\<close>
proof -
  note R = ex_Genesis_reads_timestamp and S = ex_hash_timestamp_sensitive
  from Build_l2_rollup [OF ex_Build_l2] R S
  obtain newOpGenesis opGenesisObj rollup newOpRollup
    where
      1: "lookup_path rollup [''genesis'', ''l2_time''] = Some (VUint64 (40 + 2))" and
      2: "lookup_path rollup [''genesis'', ''l2'', ''hash'']
           = Some (VString (Genesis_ToBlock_Hash_String ex_l2_env opGenesisObj))" and
      3: "json_Unmarshal_Genesis ex_l2_env newOpGenesis = Inr opGenesisObj" and
      4: "json_Marshal ex_l2_env rollup = Inr newOpRollup" and
      5: \<open>file_writes
          [MkdirAll ''out'' 493,
           OsWriteFile ''out/l2-genesis.json'' ''{"timestamp":"0x2a"}'' 420,
           MkdirAll ''out'' 493,
           OsWriteFile ''out/rollup.json''
             (''{"chain_op_config":{"eip1559Denominator":50,"eip1559DenominatorCanyon":250,''
                @ ''"eip1559Elasticity":6},"genesis":{"l1":{"hash":"0xl1","number":0},''
                @ ''"l2":{"hash":"0xhash2a","number":0},"l2_time":42}}'') 420]
         = file_writes [] @
           [(filepath_Join ex_l2_env [dst \<lparr>dst = ''out'', homeDir = []\<rparr>, ''l2-genesis.json''], newOpGenesis),
            (filepath_Join ex_l2_env [dst \<lparr>dst = ''out'', homeDir = []\<rparr>, ''rollup.json''], newOpRollup)]\<close> and
      6: "Timestamp opGenesisObj = 40 + 2" and
      7: "\<forall>template. json_Unmarshal_Genesis ex_l2_env (opGenesis ex_l2_env) = Inr template
              \<and> Timestamp template \<noteq> 40 + 2
            \<longrightarrow> lookup_path rollup [''genesis'', ''l2'', ''hash'']
                  \<noteq> Some (VString (Genesis_ToBlock_Hash_String ex_l2_env template))"
    by blast
  from 5 have n: \<open>newOpGenesis = ''{"timestamp":"0x2a"}''\<close>
    and m: \<open>newOpRollup = ''{"chain_op_config":{"eip1559Denominator":50,"eip1559DenominatorCanyon":250,''
                @ ''"eip1559Elasticity":6},"genesis":{"l1":{"hash":"0xl1","number":0},''
                @ ''"l2":{"hash":"0xhash2a","number":0},"l2_time":42}}''\<close>
    by simp_all
  from 7 ex_template_Genesis have 8: "lookup_path rollup [''genesis'', ''l2'', ''hash'']
       \<noteq> Some (VString (Genesis_ToBlock_Hash_String ex_l2_env \<lparr>Timestamp = 0, Other = []\<rparr>))"
    by simp
  from 1 2 3 4 6 8 show ?thesis
    unfolding n m using ex_Build_l2 R S ex_template_Genesis
    by (intro conjI exI [of _ rollup] exI [of _ opGenesisObj]) simp_all
qed

end
